theory Spec2Isabelle
  imports Main
begin

section \<open>The per-guild music queue of the bot\<close>

text \<open>
  The program is the message handler of a chat bot that plays music in voice channels
  (the second program of \<^verbatim>\<open>src/unnamed/part_000\<close>, lines 50 to 231). Its state is the
  global \<^verbatim>\<open>const queue = new Map()\<close> from guild ids to \<^verbatim>\<open>queueConstruct\<close> objects. The
  objects are shared: the listeners registered on a player keep their \<^verbatim>\<open>queueConstruct\<close>
  after \<^verbatim>\<open>queue.delete\<close> has removed it from the map. The model therefore has an
  explicit store of objects (\<open>heap\<close>), and the map holds references into it.

  The audio player, the voice connection, the song lookup and the chat transport belong
  to libraries (\<^verbatim>\<open>@discordjs/voice\<close>, \<^verbatim>\<open>ytdl-core\<close>, \<^verbatim>\<open>discord.js\<close>). They are modelled
  by what the handler does with them and by what they then do to the handler:
  \<^item> a player has a status and a current resource; \<^verbatim>\<open>play\<close> gives it a new resource,
    \<^verbatim>\<open>pause\<close> and \<^verbatim>\<open>unpause\<close> change the status of a playing or paused player;
  \<^item> \<^verbatim>\<open>stop()\<close> (not forced) leaves the status as it is and asks the resource to end: the
    player becomes idle, and emits \<^verbatim>\<open>Idle\<close>, only after it has played the closing
    silence, which it does while it is playing into a connection: not while it is
    paused, and never once its connection is destroyed;
  \<^item> a stream that fails makes the player emit \<^verbatim>\<open>'error'\<close> and then, unless a listener
    of that event gave the player a new resource, become idle and emit \<^verbatim>\<open>Idle\<close>;
  \<^item> a connection counts the calls of \<^verbatim>\<open>destroy\<close>;
  \<^item> what the song lookup and \<^verbatim>\<open>joinVoiceChannel\<close> answer is part of the input;
  \<^item> every \<^verbatim>\<open>reply\<close> and \<^verbatim>\<open>send\<close> is appended to an outbox.
  One handler runs at a time, as in the single-threaded event loop of the source. A
  handler runs to its end, except that a \<^verbatim>\<open>play\<close> command waits for its lookup: other
  handlers may run before it goes on.
\<close>

subsection \<open>Data\<close>

type_synonym guild = nat
type_synonym channel = nat
type_synonym ref = nat

text \<open>\<^verbatim>\<open>const song = { title: songInfo.title, url: songInfo.url }\<close>\<close>

record song =
  title :: string
  url :: string

datatype AudioPlayerStatus = Idle | Playing | Paused

text \<open>
  \<open>resource\<close> counts the resources the player was given, so it names the current one;
  \<open>stopRequested\<close> holds when \<^verbatim>\<open>stop()\<close> was called on the current resource.
  \<open>listeners\<close> is \<open>Some g\<close> once \<^verbatim>\<open>player.on(AudioPlayerStatus.Idle, ...)\<close> and
  \<^verbatim>\<open>player.on('error', ...)\<close> have run (lines 148 to 162); \<open>g\<close> is the
  \<^verbatim>\<open>message.guild.id\<close> the two closures captured.
\<close>

record audioPlayer =
  status :: AudioPlayerStatus
  resource :: nat
  stopRequested :: bool
  listeners :: "guild option"

record voiceConnection =
  destroyCalls :: nat
  subscribed :: bool

text \<open>The object of lines 121 to 127; \<open>connection\<close> is \<open>None\<close> for \<^verbatim>\<open>null\<close>.\<close>

record queueConstruct =
  voiceChannel :: channel
  textChannel :: channel
  connection :: "voiceConnection option"
  player :: audioPlayer
  songs :: "song list"

text \<open>
  The texts the bot sends, one constructor per literal of the source (the emoji and the
  markdown of the literals are left out):
  \<open>NowPlaying\<close> is the text of \<^verbatim>\<open>playSong\<close>, \<open>NowPlayingIs\<close> the one of the \<^verbatim>\<open>now\<close>
  command, \<open>CurrentQueue\<close> the embed of the \<^verbatim>\<open>queue\<close> command with its numbered lines.
\<close>

datatype notice =
    JoinVoiceFirst
  | NeedPermissions
  | ProvideSong
  | OnlySpotifyTracks
  | FailedToLoad
  | SongNotFound
  | FailedToJoinVC
  | AddedToQueue string
  | NoSongToSkip
  | Skipped
  | NothingIsPlaying
  | StoppedAndCleared
  | PausedText
  | ResumedText
  | QueueIsEmpty
  | CurrentQueue "(nat \<times> string) list"
  | NothingPlaying
  | NowPlayingIs string
  | NowPlaying string

text \<open>\<open>Reply\<close> is \<^verbatim>\<open>message.reply\<close>, \<open>Send c\<close> is \<^verbatim>\<open>send\<close> on the channel \<open>c\<close>.\<close>

datatype outmsg = Reply notice | Send channel notice

text \<open>
  What the transport reports of a player; the reference is the \<^verbatim>\<open>queueConstruct\<close> that
  owns the player. \<open>IdleEvent\<close>: the resource has ended, by itself or after \<^verbatim>\<open>stop()\<close>.
  \<open>ErrorEvent\<close>: the stream of the resource has failed.
\<close>

datatype event = IdleEvent ref | ErrorEvent ref

record world =
  queue :: "guild \<rightharpoonup> ref"
  heap :: "ref \<rightharpoonup> queueConstruct"
  nextRef :: ref
  outbox :: "outmsg list"

text \<open>A JavaScript exception that no \<^verbatim>\<open>catch\<close> of the source handles.\<close>

datatype error = TypeError

datatype outcome = Returned | Uncaught error

text \<open>What the handler reads of a message.\<close>

record message =
  fromBot :: bool
  guildId :: guild
  channelId :: channel
  memberVoice :: "channel option"
  canConnect :: bool
  canSpeak :: bool

text \<open>
  The answer of the lookup of lines 90 to 110: an exception (caught at line 107), a
  Spotify link that is not a track (line 98), or \<^verbatim>\<open>songInfo\<close>, which is \<^verbatim>\<open>undefined\<close>
  when the search has no first video.
\<close>

datatype lookup = LookupThrows | NotSpotifyTrack | Found "song option"

text \<open>
  The command word with its arguments. For \<open>Play\<close>: the search text, the answer of the
  lookup, and whether \<^verbatim>\<open>joinVoiceChannel\<close> returns (\<open>True\<close>) or throws.
\<close>

datatype command =
    Play string lookup bool
  | Skip
  | Stop
  | Pause
  | Resume
  | Queue
  | Now
  | Other

subsection \<open>Library operations\<close>

definition createAudioPlayer :: audioPlayer where
  "createAudioPlayer = \<lparr>status = Idle, resource = 0, stopRequested = False, listeners = None\<rparr>"

definition joinVoiceChannel :: voiceConnection where
  "joinVoiceChannel = \<lparr>destroyCalls = 0, subscribed = False\<rparr>"

definition subscribe :: "voiceConnection \<Rightarrow> voiceConnection" where
  "subscribe c = c\<lparr>subscribed := True\<rparr>"

definition destroy :: "voiceConnection \<Rightarrow> voiceConnection" where
  "destroy c = c\<lparr>destroyCalls := Suc (destroyCalls c)\<rparr>"

definition play :: "audioPlayer \<Rightarrow> audioPlayer" where
  "play p = p\<lparr>status := Playing, resource := Suc (resource p), stopRequested := False\<rparr>"

definition pause :: "audioPlayer \<Rightarrow> audioPlayer" where
  "pause p = (if status p = Playing then p\<lparr>status := Paused\<rparr> else p)"

definition unpause :: "audioPlayer \<Rightarrow> audioPlayer" where
  "unpause p = (if status p = Paused then p\<lparr>status := Playing\<rparr> else p)"

definition stop :: "audioPlayer \<Rightarrow> audioPlayer" where
  "stop p = (if status p = Idle then p else p\<lparr>stopRequested := True\<rparr>)"

text \<open>The change of status that the \<^verbatim>\<open>Idle\<close> event reports.\<close>

definition becomeIdle :: "audioPlayer \<Rightarrow> audioPlayer" where
  "becomeIdle p = p\<lparr>status := Idle, stopRequested := False\<rparr>"

text \<open>The player of the object plays into a connection: subscribed and not destroyed.\<close>

definition hasSubscriber :: "queueConstruct \<Rightarrow> bool" where
  "hasSubscriber qc =
     (case connection qc of None \<Rightarrow> False | Some c \<Rightarrow> subscribed c \<and> destroyCalls c = 0)"

text \<open>\<^verbatim>\<open>songs.shift()\<close>: drops the first element; nothing happens on an empty array.\<close>

definition shift :: "'a list \<Rightarrow> 'a list" where
  "shift xs = (case xs of [] \<Rightarrow> [] | _ # rest \<Rightarrow> rest)"

text \<open>\<^verbatim>\<open>songs[0]\<close>: \<^verbatim>\<open>undefined\<close> on an empty array.\<close>

definition first :: "'a list \<Rightarrow> 'a option" where
  "first xs = (case xs of [] \<Rightarrow> None | x # _ \<Rightarrow> Some x)"

subsection \<open>The store\<close>

text \<open>\<^verbatim>\<open>queue.get(id)\<close>, with the reference of the object it returns.\<close>

definition serverQueue :: "world \<Rightarrow> guild \<Rightarrow> (ref \<times> queueConstruct) option" where
  "serverQueue w g =
     (case queue w g of
        None \<Rightarrow> None
      | Some a \<Rightarrow> (case heap w a of None \<Rightarrow> None | Some qc \<Rightarrow> Some (a, qc)))"

definition reply :: "notice \<Rightarrow> world \<Rightarrow> outcome \<times> world" where
  "reply t w = (Returned, w\<lparr>outbox := outbox w @ [Reply t]\<rparr>)"

definition send :: "channel \<Rightarrow> notice \<Rightarrow> world \<Rightarrow> outcome \<times> world" where
  "send c t w = (Returned, w\<lparr>outbox := outbox w @ [Send c t]\<rparr>)"

subsection \<open>playSong (lines 216 to 229)\<close>

text \<open>
  \<^verbatim>\<open>serverQueue.player\<close> throws a TypeError when the guild has no entry in the map and
  the song is present. The stream of \<^verbatim>\<open>ytdl\<close> is returned at once; a stream that fails
  is reported later, by the \<^verbatim>\<open>'error'\<close> event of the player.
\<close>

definition playSong :: "guild \<Rightarrow> song option \<Rightarrow> world \<Rightarrow> outcome \<times> world" where
  "playSong g sng w =
     (case sng of
        None \<Rightarrow> (Returned, w)
      | Some s \<Rightarrow>
          (case serverQueue w g of
             None \<Rightarrow> (Uncaught TypeError, w)
           | Some (a, qc) \<Rightarrow>
               send (textChannel qc) (NowPlaying (title s))
                 (w\<lparr>heap := (heap w)(a \<mapsto> qc\<lparr>player := play (player qc)\<rparr>)\<rparr>)))"

subsection \<open>The listeners of a player (lines 148 to 162)\<close>

text \<open>
  Both closures hold the guild id \<open>g\<close> and the object at \<open>a\<close>; their \<^verbatim>\<open>connection\<close> is the
  one stored in that object at line 138.
\<close>

definition onIdle :: "guild \<Rightarrow> ref \<Rightarrow> world \<Rightarrow> outcome \<times> world" where
  "onIdle g a w =
     (case heap w a of
        None \<Rightarrow> (Returned, w)
      | Some qc \<Rightarrow>
          let rest = shift (songs qc);
              w1 = w\<lparr>heap := (heap w)(a \<mapsto> qc\<lparr>songs := rest\<rparr>)\<rparr>
          in if length rest > 0 then playSong g (first rest) w1
             else (Returned,
                   w1\<lparr>heap := (heap w1)(a \<mapsto> qc\<lparr>songs := rest,
                                   connection := map_option destroy (connection qc)\<rparr>),
                      queue := (queue w1)(g := None)\<rparr>))"

definition onError :: "guild \<Rightarrow> ref \<Rightarrow> world \<Rightarrow> outcome \<times> world" where
  "onError g a w =
     (case heap w a of
        None \<Rightarrow> (Returned, w)
      | Some qc \<Rightarrow>
          let rest = shift (songs qc);
              w1 = w\<lparr>heap := (heap w)(a \<mapsto> qc\<lparr>songs := rest\<rparr>)\<rparr>
          in playSong g (first rest) w1)"

text \<open>
  The player of the object at \<open>a\<close> becomes idle and its \<^verbatim>\<open>Idle\<close> listener, if it has one,
  runs.
\<close>

definition turnIdle :: "ref \<Rightarrow> world \<Rightarrow> outcome \<times> world" where
  "turnIdle a w =
     (case heap w a of
        None \<Rightarrow> (Returned, w)
      | Some qc \<Rightarrow>
          let w1 = w\<lparr>heap := (heap w)(a \<mapsto> qc\<lparr>player := becomeIdle (player qc)\<rparr>)\<rparr>
          in (case listeners (player qc) of
                None \<Rightarrow> (Returned, w1)
              | Some g \<Rightarrow> onIdle g a w1))"

text \<open>
  What the transport does to the handler. A resource ends only while its player is
  playing into a connection; then the player becomes idle. A stream fails only under a
  player that is not idle: the \<^verbatim>\<open>'error'\<close> listener runs, and if it returns and the
  player still has the same resource, the player becomes idle as well. (An exception of
  the listener leaves the emitter before that.) In any other state the report cannot
  occur and the step changes nothing.
\<close>

fun deliver :: "event \<Rightarrow> world \<Rightarrow> outcome \<times> world" where
  "deliver (IdleEvent a) w =
     (case heap w a of
        None \<Rightarrow> (Returned, w)
      | Some qc \<Rightarrow>
          if status (player qc) = Playing \<and> hasSubscriber qc then turnIdle a w
          else (Returned, w))"
| "deliver (ErrorEvent a) w =
     (case heap w a of
        None \<Rightarrow> (Returned, w)
      | Some qc \<Rightarrow>
          if status (player qc) = Idle then (Returned, w)
          else
            (case listeners (player qc) of
               None \<Rightarrow> (Returned, w)
             | Some g \<Rightarrow>
                 (case onError g a w of
                    (Uncaught e, w1) \<Rightarrow> (Uncaught e, w1)
                  | (Returned, w1) \<Rightarrow>
                      (case heap w1 a of
                         None \<Rightarrow> (Returned, w1)
                       | Some qc1 \<Rightarrow>
                           if status (player qc1) \<noteq> Idle \<and>
                              resource (player qc1) = resource (player qc)
                           then turnIdle a w1
                           else (Returned, w1)))))"

subsection \<open>The commands (lines 72 to 214)\<close>

text \<open>
  The branch of line 119: no entry for the guild. The listeners are registered on the
  player of the new object after \<^verbatim>\<open>playSong\<close> has changed it, so the object is read
  from the store again (it is there: line 129 put it). \<^verbatim>\<open>joinVoiceChannel\<close> fails by
  throwing; the source has no listener for a connection that fails later.
\<close>

definition newSession :: "message \<Rightarrow> channel \<Rightarrow> song \<Rightarrow> bool \<Rightarrow> world \<Rightarrow> outcome \<times> world" where
  "newSession m vc sng joinOk w =
     (let a = nextRef w;
          qc = \<lparr>voiceChannel = vc, textChannel = channelId m, connection = None,
                player = createAudioPlayer, songs = [sng]\<rparr>;
          w1 = w\<lparr>queue := (queue w)(guildId m \<mapsto> a), heap := (heap w)(a \<mapsto> qc),
                 nextRef := Suc a\<rparr>
      in if \<not> joinOk
         then reply FailedToJoinVC (w1\<lparr>queue := (queue w1)(guildId m := None)\<rparr>)
         else
           let qc2 = qc\<lparr>connection := Some (subscribe joinVoiceChannel)\<rparr>;
               w2 = w1\<lparr>heap := (heap w1)(a \<mapsto> qc2)\<rparr>
           in (case playSong (guildId m) (Some sng) w2 of
                 (Uncaught e, w3) \<Rightarrow>
                   reply FailedToJoinVC (w3\<lparr>queue := (queue w3)(guildId m := None)\<rparr>)
               | (Returned, w3) \<Rightarrow>
                   (case heap w3 a of
                      None \<Rightarrow> (Returned, w3)
                    | Some qc3 \<Rightarrow>
                        (Returned,
                         w3\<lparr>heap := (heap w3)(a \<mapsto>
                               qc3\<lparr>player := (player qc3)\<lparr>listeners := Some (guildId m)\<rparr>\<rparr>)\<rparr>))))"

text \<open>
  The handler reads \<^verbatim>\<open>queue.get(message.guild.id)\<close> at line 77 and uses what it read
  at lines 119 and 169, after the \<^verbatim>\<open>await\<close>s of the lookup, during which other handlers
  may run. \<open>playAfterLookup\<close> is the command given the reference \<open>r\<close> that line 77
  read; \<open>deref\<close> is the object it denotes when it is used.
\<close>

definition deref :: "world \<Rightarrow> ref option \<Rightarrow> (ref \<times> queueConstruct) option" where
  "deref w r =
     (case r of
        None \<Rightarrow> None
      | Some a \<Rightarrow> (case heap w a of None \<Rightarrow> None | Some qc \<Rightarrow> Some (a, qc)))"

definition playAfterLookup ::
  "message \<Rightarrow> string \<Rightarrow> lookup \<Rightarrow> bool \<Rightarrow> ref option \<Rightarrow> world \<Rightarrow> outcome \<times> world" where
  "playAfterLookup m search lk joinOk r w =
     (case memberVoice m of
        None \<Rightarrow> reply JoinVoiceFirst w
      | Some vc \<Rightarrow>
          if \<not> canConnect m then reply NeedPermissions w
          else if \<not> canSpeak m then reply NeedPermissions w
          else if search = [] then reply ProvideSong w
          else
            (case lk of
               LookupThrows \<Rightarrow> reply FailedToLoad w
             | NotSpotifyTrack \<Rightarrow> reply OnlySpotifyTracks w
             | Found None \<Rightarrow> reply SongNotFound w
             | Found (Some songInfo) \<Rightarrow>
                 let sng = \<lparr>title = title songInfo, url = url songInfo\<rparr>
                 in (case deref w r of
                       None \<Rightarrow> newSession m vc sng joinOk w
                     | Some (a, qc) \<Rightarrow>
                         send (channelId m) (AddedToQueue (title sng))
                           (w\<lparr>heap := (heap w)(a \<mapsto> qc\<lparr>songs := songs qc @ [sng]\<rparr>)\<rparr>))))"

text \<open>The command when no other handler runs during its lookup.\<close>

definition playCommand :: "message \<Rightarrow> string \<Rightarrow> lookup \<Rightarrow> bool \<Rightarrow> world \<Rightarrow> outcome \<times> world" where
  "playCommand m search lk joinOk w = playAfterLookup m search lk joinOk (queue w (guildId m)) w"

definition skipCommand :: "message \<Rightarrow> world \<Rightarrow> outcome \<times> world" where
  "skipCommand m w =
     (case serverQueue w (guildId m) of
        None \<Rightarrow> reply NoSongToSkip w
      | Some (a, qc) \<Rightarrow>
          send (channelId m) Skipped
            (w\<lparr>heap := (heap w)(a \<mapsto> qc\<lparr>player := stop (player qc)\<rparr>)\<rparr>))"

text \<open>
  \<^verbatim>\<open>serverQueue.connection.destroy()\<close> throws a TypeError when the connection is
  \<^verbatim>\<open>null\<close>; the lines after it are then not reached.
\<close>

definition stopCommand :: "message \<Rightarrow> world \<Rightarrow> outcome \<times> world" where
  "stopCommand m w =
     (case serverQueue w (guildId m) of
        None \<Rightarrow> reply NothingIsPlaying w
      | Some (a, qc) \<Rightarrow>
          let qc1 = qc\<lparr>songs := [], player := stop (player qc)\<rparr>;
              w1 = w\<lparr>heap := (heap w)(a \<mapsto> qc1)\<rparr>
          in (case connection qc1 of
                None \<Rightarrow> (Uncaught TypeError, w1)
              | Some c \<Rightarrow>
                  send (channelId m) StoppedAndCleared
                    (w1\<lparr>heap := (heap w1)(a \<mapsto> qc1\<lparr>connection := Some (destroy c)\<rparr>),
                        queue := (queue w1)(guildId m := None)\<rparr>)))"

definition pauseCommand :: "message \<Rightarrow> world \<Rightarrow> outcome \<times> world" where
  "pauseCommand m w =
     (case serverQueue w (guildId m) of
        None \<Rightarrow> (Returned, w)
      | Some (a, qc) \<Rightarrow>
          send (channelId m) PausedText
            (w\<lparr>heap := (heap w)(a \<mapsto> qc\<lparr>player := pause (player qc)\<rparr>)\<rparr>))"

definition resumeCommand :: "message \<Rightarrow> world \<Rightarrow> outcome \<times> world" where
  "resumeCommand m w =
     (case serverQueue w (guildId m) of
        None \<Rightarrow> (Returned, w)
      | Some (a, qc) \<Rightarrow>
          send (channelId m) ResumedText
            (w\<lparr>heap := (heap w)(a \<mapsto> qc\<lparr>player := unpause (player qc)\<rparr>)\<rparr>))"

text \<open>The lines of the embed: \<^verbatim>\<open>songs.map((s, i) => `${i + 1}. ${s.title}`)\<close>.\<close>

definition queueLines :: "song list \<Rightarrow> (nat \<times> string) list" where
  "queueLines xs = map (\<lambda>(i, s). (i + 1, title s)) (enumerate 0 xs)"

definition queueCommand :: "message \<Rightarrow> world \<Rightarrow> outcome \<times> world" where
  "queueCommand m w =
     (case serverQueue w (guildId m) of
        None \<Rightarrow> reply QueueIsEmpty w
      | Some (a, qc) \<Rightarrow>
          if length (songs qc) = 0 then reply QueueIsEmpty w
          else send (channelId m) (CurrentQueue (queueLines (songs qc))) w)"

definition nowCommand :: "message \<Rightarrow> world \<Rightarrow> outcome \<times> world" where
  "nowCommand m w =
     (case serverQueue w (guildId m) of
        None \<Rightarrow> reply NothingPlaying w
      | Some (a, qc) \<Rightarrow>
          (case first (songs qc) of
             None \<Rightarrow> reply NothingPlaying w
           | Some s \<Rightarrow> send (channelId m) (NowPlayingIs (title s)) w))"

text \<open>The listener of \<^verbatim>\<open>messageCreate\<close>; a message of a bot is ignored (line 73).\<close>

definition messageCreate :: "message \<Rightarrow> command \<Rightarrow> world \<Rightarrow> outcome \<times> world" where
  "messageCreate m c w =
     (if fromBot m then (Returned, w)
      else
        (case c of
           Play search lk joinOk \<Rightarrow> playCommand m search lk joinOk w
         | Skip \<Rightarrow> skipCommand m w
         | Stop \<Rightarrow> stopCommand m w
         | Pause \<Rightarrow> pauseCommand m w
         | Resume \<Rightarrow> resumeCommand m w
         | Queue \<Rightarrow> queueCommand m w
         | Now \<Rightarrow> nowCommand m w
         | Other \<Rightarrow> (Returned, w)))"

subsection \<open>The event loop\<close>

text \<open>
  One turn of the event loop: a message arrives and is handled at once, a \<^verbatim>\<open>play\<close>
  command goes on after its lookup with the reference it had read before (\<open>LatePlay\<close>),
  or the transport reports the end of a resource or the failure of a stream. An
  exception ends the turn; what the handler changed before it stays changed.
\<close>

datatype input =
    Message message command
  | LatePlay message string lookup bool "ref option"
  | Transport event

fun step :: "input \<Rightarrow> world \<Rightarrow> outcome \<times> world" where
  "step (Message m c) w = messageCreate m c w"
| "step (LatePlay m search lk joinOk r) w =
     (if fromBot m then (Returned, w) else playAfterLookup m search lk joinOk r w)"
| "step (Transport ev) w = deliver ev w"

fun run :: "input list \<Rightarrow> world \<Rightarrow> world" where
  "run [] w = w"
| "run (i # is) w = run is (snd (step i w))"

text \<open>The state at the start of the process: \<^verbatim>\<open>new Map()\<close>.\<close>

definition initial :: world where
  "initial = \<lparr>queue = Map.empty, heap = Map.empty, nextRef = 0, outbox = []\<rparr>"

subsection \<open>Notions the properties use\<close>

text \<open>
  The handles of a guild as the specification speaks of them: those of the session that
  the map holds for the guild, absent when it holds none.
\<close>

definition connectionHandle :: "world \<Rightarrow> guild \<Rightarrow> voiceConnection option" where
  "connectionHandle w g = (case serverQueue w g of None \<Rightarrow> None | Some (a, qc) \<Rightarrow> connection qc)"

definition playerHandle :: "world \<Rightarrow> guild \<Rightarrow> audioPlayer option" where
  "playerHandle w g = (case serverQueue w g of None \<Rightarrow> None | Some (a, qc) \<Rightarrow> Some (player qc))"

text \<open>
  A \<^verbatim>\<open>play\<close> command that passes the checks of lines 73 to 88 for the guild \<open>g\<close>, and
  the input in which its lookup finds the song and \<^verbatim>\<open>joinVoiceChannel\<close> returns.
  \<open>sessionSongs\<close> is the queue of songs of the guild's session.
\<close>

definition playable :: "guild \<Rightarrow> message \<Rightarrow> string \<Rightarrow> bool" where
  "playable g m q = (\<not> fromBot m \<and> guildId m = g \<and> memberVoice m \<noteq> None \<and>
     canConnect m \<and> canSpeak m \<and> q \<noteq> [])"

definition resolvedPlay :: "message \<times> string \<times> song \<Rightarrow> input" where
  "resolvedPlay r = (case r of (m, q, s) \<Rightarrow> Message m (Play q (Found (Some s)) True))"

definition sessionSongs :: "world \<Rightarrow> guild \<Rightarrow> song list option" where
  "sessionSongs w g = (case serverQueue w g of None \<Rightarrow> None | Some (a, qc) \<Rightarrow> Some (songs qc))"

text \<open>
  A session in the map is live for its guild \<open>g\<close>: its listeners are registered for \<open>g\<close>
  and its connection was made, has the player as subscriber and was never destroyed.
\<close>

definition live :: "guild \<Rightarrow> queueConstruct \<Rightarrow> bool" where
  "live g qc = (listeners (player qc) = Some g \<and>
     (\<exists>c. connection qc = Some c \<and> destroyCalls c = 0 \<and> subscribed c))"

definition store_ok :: "world \<Rightarrow> bool" where
  "store_ok w = (\<forall>g a. queue w g = Some a \<longrightarrow>
     a < nextRef w \<and> (\<exists>qc. heap w a = Some qc \<and> live g qc))"

text \<open>
  A session whose player is playing into its connection and has its listeners
  registered for the guild \<open>g\<close>: the state in which the end of its resource can be
  reported.
\<close>

definition ready :: "guild \<Rightarrow> queueConstruct \<Rightarrow> bool" where
  "ready g qc = (listeners (player qc) = Some g \<and> status (player qc) = Playing \<and>
     hasSubscriber qc)"

subsection \<open>Example inputs\<close>

definition exMessage :: message where
  "exMessage = \<lparr>fromBot = False, guildId = 1, channelId = 7, memberVoice = Some 3,
     canConnect = True, canSpeak = True\<rparr>"

definition songA :: song where "songA = \<lparr>title = ''A'', url = ''a''\<rparr>"
definition songB :: song where "songB = \<lparr>title = ''B'', url = ''b''\<rparr>"
definition songC :: song where "songC = \<lparr>title = ''C'', url = ''c''\<rparr>"

definition exPlay :: "song \<Rightarrow> input" where
  "exPlay s = Message exMessage (Play ''q'' (Found (Some s)) True)"

definition exSession :: "song list \<Rightarrow> queueConstruct" where
  "exSession xs = \<lparr>voiceChannel = 3, textChannel = 7,
     connection = Some \<lparr>destroyCalls = 0, subscribed = True\<rparr>,
     player = \<lparr>status = Playing, resource = 1, stopRequested = False, listeners = Some 1\<rparr>,
     songs = xs\<rparr>"




section \<open>Properties\<close>

subsection \<open>Evaluation and the invariant of the store\<close>

lemmas command_defs =
  messageCreate_def playCommand_def playAfterLookup_def deref_def newSession_def skipCommand_def
  stopCommand_def
  pauseCommand_def resumeCommand_def queueCommand_def nowCommand_def playSong_def
  onIdle_def onError_def turnIdle_def serverQueue_def reply_def send_def
  createAudioPlayer_def joinVoiceChannel_def subscribe_def destroy_def play_def pause_def
  unpause_def stop_def becomeIdle_def hasSubscriber_def shift_def first_def Let_def

lemmas example_defs = exMessage_def songA_def songB_def songC_def exPlay_def exSession_def initial_def

lemma run_exPlay_A:
  "run [exPlay songA] initial =
     \<lparr>queue = [1 \<mapsto> 0], heap = [0 \<mapsto> exSession [songA]], nextRef = 1,
      outbox = [Send 7 (NowPlaying ''A'')]\<rparr>"
  by (simp add: command_defs example_defs)

lemma serverQueue_exPlay_A:
  "serverQueue (run [exPlay songA] initial) 1 = Some (0, exSession [songA])"
  unfolding run_exPlay_A by (simp add: serverQueue_def)

lemma store_okD:
  "store_ok w \<Longrightarrow> queue w g = Some a \<Longrightarrow> a < nextRef w \<and> (\<exists>qc. heap w a = Some qc \<and> live g qc)"
  by (simp add: store_ok_def)

lemma live_songs [simp]: "live g (qc\<lparr>songs := xs\<rparr>) = live g qc"
  by (simp add: live_def)

lemma live_player:
  "listeners p = listeners (player qc) \<Longrightarrow> live g (qc\<lparr>player := p\<rparr>) = live g qc"
  by (simp add: live_def)

lemma listeners_play [simp]: "listeners (play p) = listeners p"
  by (simp add: play_def)

lemma listeners_pause [simp]: "listeners (pause p) = listeners p"
  by (simp add: pause_def)

lemma listeners_unpause [simp]: "listeners (unpause p) = listeners p"
  by (simp add: unpause_def)

lemma listeners_stop [simp]: "listeners (stop p) = listeners p"
  by (simp add: stop_def)

lemma listeners_becomeIdle [simp]: "listeners (becomeIdle p) = listeners p"
  by (simp add: becomeIdle_def)

lemma live_unique: "live g qc \<Longrightarrow> live g' qc \<Longrightarrow> g = g'"
  by (simp add: live_def)

text \<open>Changing an object keeps the invariant when the object stays live.\<close>

lemma store_ok_heap_upd:
  assumes "store_ok w" "heap w a = Some qc" "\<And>g. live g qc \<Longrightarrow> live g qc'"
  shows "store_ok (w\<lparr>heap := (heap w)(a \<mapsto> qc')\<rparr>)"
  unfolding store_ok_def
proof (intro allI impI)
  fix g b
  assume "queue (w\<lparr>heap := (heap w)(a \<mapsto> qc')\<rparr>) g = Some b"
  then have q: "queue w g = Some b" by simp
  from store_okD[OF assms(1) q] obtain qb where b: "b < nextRef w" "heap w b = Some qb" "live g qb"
    by blast
  show "b < nextRef (w\<lparr>heap := (heap w)(a \<mapsto> qc')\<rparr>) \<and>
        (\<exists>qc. heap (w\<lparr>heap := (heap w)(a \<mapsto> qc')\<rparr>) b = Some qc \<and> live g qc)"
  proof (cases "b = a")
    case True
    then have "qb = qc" using b(2) assms(2) by simp
    then show ?thesis using True b assms(3) by simp
  next
    case False
    then show ?thesis using b by simp
  qed
qed

lemma store_ok_outbox [simp]: "store_ok (w\<lparr>outbox := ob\<rparr>) = store_ok w"
  by (simp add: store_ok_def)

lemma store_ok_delete: "store_ok w \<Longrightarrow> store_ok (w\<lparr>queue := (queue w)(g := None)\<rparr>)"
  by (simp add: store_ok_def)

lemma store_ok_initial: "store_ok initial"
  by (simp add: store_ok_def initial_def)

lemma store_ok_reply: "store_ok w \<Longrightarrow> store_ok (snd (reply t w))"
  by (simp add: reply_def)

lemma store_ok_send: "store_ok w \<Longrightarrow> store_ok (snd (send c t w))"
  by (simp add: send_def)

lemma serverQueueD: "serverQueue w g = Some (a, qc) \<Longrightarrow> queue w g = Some a \<and> heap w a = Some qc"
  by (auto simp: serverQueue_def split: option.splits)


lemma derefD: "deref w r = Some (a, qc) \<Longrightarrow> heap w a = Some qc"
  by (auto simp: deref_def split: option.splits)

lemma store_ok_playSong: "store_ok w \<Longrightarrow> store_ok (snd (playSong g s w))"
proof (cases s)
  case None
  assume "store_ok w" then show ?thesis using None by (simp add: playSong_def)
next
  case (Some x)
  assume i: "store_ok w"
  show ?thesis
  proof (cases "serverQueue w g")
    case None
    then show ?thesis using i Some by (simp add: playSong_def)
  next
    case (Some p)
    obtain a qc where p: "p = (a, qc)" by (cases p)
    have "store_ok (w\<lparr>heap := (heap w)(a \<mapsto> qc\<lparr>player := play (player qc)\<rparr>)\<rparr>)"
      using i serverQueueD[of w g a qc] Some p
      by (intro store_ok_heap_upd[where qc = qc]) (auto simp: live_player)
    then show ?thesis using \<open>s = Some x\<close> Some p by (simp add: playSong_def send_def)
  qed
qed

lemma store_ok_onError: "store_ok w \<Longrightarrow> store_ok (snd (onError g a w))"
  by (auto simp: onError_def Let_def split: option.splits
      intro!: store_ok_playSong store_ok_heap_upd)

lemma store_ok_onIdle:
  assumes "store_ok w" "heap w a = Some qc" "listeners (player qc) = Some g"
  shows "store_ok (snd (onIdle g a w))"
proof (cases "length (shift (songs qc)) > 0")
  case True
  have "store_ok (w\<lparr>heap := (heap w)(a \<mapsto> qc\<lparr>songs := shift (songs qc)\<rparr>)\<rparr>)"
    using assms by (auto intro: store_ok_heap_upd)
  then show ?thesis
    using True assms(2) by (simp add: onIdle_def Let_def store_ok_playSong)
next
  case False
  let ?qc = "qc\<lparr>songs := shift (songs qc), connection := map_option destroy (connection qc)\<rparr>"
  let ?w = "w\<lparr>heap := (heap w)(a \<mapsto> ?qc), queue := (queue w)(g := None)\<rparr>"
  have "store_ok ?w"
    unfolding store_ok_def
  proof (intro allI impI)
    fix g' b
    assume "queue ?w g' = Some b"
    then have q: "queue w g' = Some b" and ne: "g' \<noteq> g" by (auto split: if_splits)
    from store_okD[OF assms(1) q] obtain qb where
      b: "b < nextRef w" "heap w b = Some qb" "live g' qb"
      by blast
    have "b \<noteq> a"
    proof
      assume "b = a"
      then have "qb = qc" using b(2) assms(2) by simp
      then have "g' = g" using b(3) assms(3) by (simp add: live_def)
      then show False using ne by simp
    qed
    then show "b < nextRef ?w \<and> (\<exists>qc. heap ?w b = Some qc \<and> live g' qc)"
      using b by simp
  qed
  then show ?thesis using False assms(2) by (simp add: onIdle_def Let_def)
qed

lemma store_ok_turnIdle: "store_ok w \<Longrightarrow> store_ok (snd (turnIdle a w))"
proof (cases "heap w a")
  case None
  assume "store_ok w" then show ?thesis using None by (simp add: turnIdle_def)
next
  case (Some qc)
  assume i: "store_ok w"
  let ?qc = "qc\<lparr>player := becomeIdle (player qc)\<rparr>"
  let ?w = "w\<lparr>heap := (heap w)(a \<mapsto> ?qc)\<rparr>"
  have w: "store_ok ?w" using i Some by (auto intro: store_ok_heap_upd simp: live_player)
  show ?thesis
  proof (cases "listeners (player qc)")
    case None
    then show ?thesis using w Some by (simp add: turnIdle_def Let_def)
  next
    case (Some g)
    have "heap ?w a = Some ?qc" by simp
    moreover have "listeners (player ?qc) = Some g" using Some by simp
    ultimately have "store_ok (snd (onIdle g a ?w))" using w by (intro store_ok_onIdle)
    then show ?thesis using Some \<open>heap w a = Some qc\<close> by (simp add: turnIdle_def Let_def)
  qed
qed

lemma store_ok_deliver: "store_ok w \<Longrightarrow> store_ok (snd (deliver ev w))"
proof (cases ev)
  case (IdleEvent a)
  assume "store_ok w"
  then show ?thesis using IdleEvent by (auto simp: store_ok_turnIdle split: option.splits)
next
  case (ErrorEvent a)
  assume i: "store_ok w"
  show ?thesis
  proof (cases "heap w a")
    case None
    then show ?thesis using i ErrorEvent by simp
  next
    case (Some qc)
    note hq = this
    show ?thesis
    proof (cases "status (player qc) = Idle \<or> listeners (player qc) = None")
      case True
      then show ?thesis using i ErrorEvent hq by auto
    next
      case False
      then obtain g where g: "listeners (player qc) = Some g" and s: "status (player qc) \<noteq> Idle"
        by auto
      obtain out w1 where o: "onError g a w = (out, w1)" by (cases "onError g a w")
      have w1: "store_ok w1" using store_ok_onError[OF i, of g a] o by simp
      have "store_ok (snd (turnIdle a w1))" using w1 by (rule store_ok_turnIdle)
      then show ?thesis using ErrorEvent hq g s o w1
        by (cases out) (auto split: option.splits)
    qed
  qed
qed

lemma store_ok_newSession:
  assumes "store_ok w"
  shows "store_ok (snd (newSession m vc s j w))"
proof -
  let ?a = "nextRef w"
  have fresh: "\<And>g b. queue w g = Some b \<Longrightarrow> b \<noteq> ?a"
    using store_okD[OF assms] by fastforce
  show ?thesis
  proof (cases j)
    case False
    show ?thesis
      unfolding store_ok_def using False store_okD[OF assms] fresh
      by (auto simp: newSession_def Let_def reply_def less_Suc_eq)
  next
    case True
    show ?thesis
      unfolding store_ok_def using True store_okD[OF assms] fresh
      by (auto simp: newSession_def Let_def playSong_def serverQueue_def send_def
          less_Suc_eq live_def subscribe_def joinVoiceChannel_def play_def createAudioPlayer_def)
  qed
qed

lemma store_ok_playAfterLookup:
  "store_ok w \<Longrightarrow> store_ok (snd (playAfterLookup m q lk j r w))"
  by (auto simp: playAfterLookup_def Let_def store_ok_reply store_ok_newSession send_def
      split: option.splits lookup.splits dest!: derefD intro: store_ok_heap_upd)

lemma store_ok_playCommand: "store_ok w \<Longrightarrow> store_ok (snd (playCommand m q lk j w))"
  by (simp add: playCommand_def store_ok_playAfterLookup)

lemma store_ok_skipCommand: "store_ok w \<Longrightarrow> store_ok (snd (skipCommand m w))"
  by (auto simp: skipCommand_def store_ok_reply send_def live_player
      split: option.splits dest!: serverQueueD intro: store_ok_heap_upd)

lemma store_ok_pauseCommand: "store_ok w \<Longrightarrow> store_ok (snd (pauseCommand m w))"
  by (auto simp: pauseCommand_def send_def live_player
      split: option.splits dest!: serverQueueD intro: store_ok_heap_upd)

lemma store_ok_resumeCommand: "store_ok w \<Longrightarrow> store_ok (snd (resumeCommand m w))"
  by (auto simp: resumeCommand_def send_def live_player
      split: option.splits dest!: serverQueueD intro: store_ok_heap_upd)

lemma store_ok_queueCommand: "store_ok w \<Longrightarrow> store_ok (snd (queueCommand m w))"
  by (auto simp: queueCommand_def store_ok_reply store_ok_send split: option.splits)

lemma store_ok_nowCommand: "store_ok w \<Longrightarrow> store_ok (snd (nowCommand m w))"
  by (auto simp: nowCommand_def store_ok_reply store_ok_send split: option.splits)

text \<open>The \<^verbatim>\<open>stop\<close> command on a session that has a connection.\<close>

lemma stopCommand_session:
  assumes "serverQueue w (guildId m) = Some (a, qc)" "connection qc = Some c"
  shows "stopCommand m w =
    (Returned,
     w\<lparr>queue := (queue w)(guildId m := None),
       heap := (heap w)(a \<mapsto> qc\<lparr>songs := [], player := stop (player qc),
                                 connection := Some (destroy c)\<rparr>),
       outbox := outbox w @ [Send (channelId m) StoppedAndCleared]\<rparr>)"
  using assms serverQueueD[OF assms(1)]
  by (auto simp: stopCommand_def Let_def send_def
      intro!: world.equality queueConstruct.equality)

lemma store_ok_stopCommand:
  assumes "store_ok w"
  shows "store_ok (snd (stopCommand m w))"
proof (cases "serverQueue w (guildId m)")
  case None
  then show ?thesis using assms by (simp add: stopCommand_def store_ok_reply)
next
  case (Some p)
  obtain a qc where p: "p = (a, qc)" by (cases p)
  note sq = Some[unfolded p]
  from serverQueueD[OF sq] have q: "queue w (guildId m) = Some a" and h: "heap w a = Some qc"
    by simp_all
  from store_okD[OF assms q] h obtain c where
    c: "connection qc = Some c" and l: "live (guildId m) qc"
    by (auto simp: live_def)
  let ?w = "w\<lparr>queue := (queue w)(guildId m := None),
       heap := (heap w)(a \<mapsto> qc\<lparr>songs := [], player := stop (player qc),
                                 connection := Some (destroy c)\<rparr>)\<rparr>"
  have "store_ok ?w"
    unfolding store_ok_def
  proof (intro allI impI)
    fix g' b
    assume "queue ?w g' = Some b"
    then have q': "queue w g' = Some b" and ne: "g' \<noteq> guildId m" by (auto split: if_splits)
    from store_okD[OF assms q'] obtain qb where
      b: "b < nextRef w" "heap w b = Some qb" "live g' qb"
      by blast
    have "b \<noteq> a"
    proof
      assume "b = a"
      then have "qb = qc" using b(2) h by simp
      then have "g' = guildId m" using b(3) l by (simp add: live_def)
      then show False using ne by simp
    qed
    then show "b < nextRef ?w \<and> (\<exists>qc. heap ?w b = Some qc \<and> live g' qc)"
      using b by simp
  qed
  then show ?thesis by (simp add: stopCommand_session[OF sq c])
qed

lemma store_ok_messageCreate: "store_ok w \<Longrightarrow> store_ok (snd (messageCreate m c w))"
  by (cases c)
     (simp_all add: messageCreate_def store_ok_playCommand store_ok_skipCommand
        store_ok_stopCommand store_ok_pauseCommand store_ok_resumeCommand
        store_ok_queueCommand store_ok_nowCommand)

lemma store_ok_step: "store_ok w \<Longrightarrow> store_ok (snd (step i w))"
  by (cases i) (auto simp: store_ok_messageCreate store_ok_playAfterLookup store_ok_deliver)

lemma store_ok_run: "store_ok w \<Longrightarrow> store_ok (run is w)"
  by (induction "is" arbitrary: w) (simp_all add: store_ok_step)

lemma store_ok_reachable: "store_ok (run is initial)"
  by (rule store_ok_run[OF store_ok_initial])

lemma reachable_session:
  assumes "serverQueue (run ins initial) g = Some (a, qc)"
  shows "listeners (player qc) = Some g \<and>
         (\<exists>c. connection qc = Some c \<and> destroyCalls c = 0 \<and> subscribed c)"
  using serverQueueD[OF assms] store_okD[OF store_ok_reachable, of ins g a]
  by (auto simp: live_def)

subsection \<open>Plays in a row, and the events of a playing session\<close>

lemma queueLines_zip: "queueLines xs = zip [1..<Suc (length xs)] (map title xs)"
proof -
  have "map (\<lambda>(i, s). (Suc i, title s)) (zip [n..<n + length xs] xs) =
        zip [Suc n..<Suc n + length xs] (map title xs)" for n
  proof (induction xs arbitrary: n)
    case Nil
    then show ?case by simp
  next
    case (Cons x xs)
    have "[n..<n + length (x # xs)] = n # [Suc n..<Suc n + length xs]"
      by (simp add: upt_rec)
    moreover have "[Suc n..<Suc n + length (x # xs)] = Suc n # [Suc (Suc n)..<Suc (Suc n) + length xs]"
      by (simp add: upt_rec)
    ultimately show ?case using Cons.IH[of "Suc n"] by simp
  qed
  from this[of 0] show ?thesis by (simp add: queueLines_def enumerate_eq_zip)
qed

lemma first_play:
  assumes "serverQueue w g = None" "playable g m q"
  shows "\<exists>qc. serverQueue (snd (step (resolvedPlay (m, q, s)) w)) g = Some (nextRef w, qc) \<and>
           songs qc = [s] \<and> ready g qc"
  using assms
  by (auto simp: resolvedPlay_def playable_def messageCreate_def playCommand_def
      playAfterLookup_def deref_def ready_def hasSubscriber_def play_def subscribe_def
      joinVoiceChannel_def createAudioPlayer_def
      newSession_def Let_def playSong_def serverQueue_def send_def)

lemma later_play:
  assumes "serverQueue w g = Some (a, qc)" "playable g m q"
  shows "\<exists>qc'. serverQueue (snd (step (resolvedPlay (m, q, s)) w)) g = Some (a, qc') \<and>
           songs qc' = songs qc @ [s] \<and> ready g qc' = ready g qc"
  using assms serverQueueD[OF assms(1)]
  by (auto simp: resolvedPlay_def playable_def messageCreate_def playCommand_def
      playAfterLookup_def deref_def ready_def hasSubscriber_def
      serverQueue_def send_def)

lemma later_plays:
  assumes "serverQueue w g = Some (a, qc)" "\<forall>(m, q, s) \<in> set rs. playable g m q"
  shows "\<exists>qc'. serverQueue (run (map resolvedPlay rs) w) g = Some (a, qc') \<and>
           songs qc' = songs qc @ map (snd \<circ> snd) rs \<and> ready g qc' = ready g qc"
  using assms
proof (induction rs arbitrary: w qc)
  case Nil
  then show ?case by simp
next
  case (Cons r rs)
  obtain m q s where r: "r = (m, q, s)" by (cases r)
  have p: "playable g m q" using Cons.prems(2) r by simp
  from later_play[OF Cons.prems(1) p, of s] obtain qc1 where
    1: "serverQueue (snd (step (resolvedPlay (m, q, s)) w)) g = Some (a, qc1)"
      "songs qc1 = songs qc @ [s]" "ready g qc1 = ready g qc"
    by blast
  have "\<forall>(m, q, s) \<in> set rs. playable g m q" using Cons.prems(2) by simp
  from Cons.IH[OF 1(1) this] 1(2,3) show ?case by (simp add: r)
qed

lemma queue_report:
  assumes "serverQueue w (guildId m) = Some (a, qc)" "songs qc \<noteq> []" "\<not> fromBot m"
  shows "messageCreate m Queue w =
     (Returned, w\<lparr>outbox := outbox w @
        [Send (channelId m) (CurrentQueue (zip [1..<Suc (length (songs qc))] (map title (songs qc))))]\<rparr>)"
  using assms by (simp add: messageCreate_def queueCommand_def send_def queueLines_zip)

text \<open>The \<^verbatim>\<open>Idle\<close> event on a stored, playing session with two songs or more.\<close>

lemma idle_songs_remain:
  assumes "serverQueue w g = Some (a, qc)" "ready g qc" "songs qc = x # y # ys"
  shows "step (Transport (IdleEvent a)) w =
     (Returned,
      w\<lparr>heap := (heap w)(a \<mapsto> qc\<lparr>songs := y # ys, player := play (player qc)\<rparr>),
        outbox := outbox w @ [Send (textChannel qc) (NowPlaying (title y))]\<rparr>)"
  using assms serverQueueD[OF assms(1)]
  by (auto simp: ready_def turnIdle_def onIdle_def Let_def shift_def first_def playSong_def
      serverQueue_def send_def play_def becomeIdle_def
      intro!: world.equality queueConstruct.equality audioPlayer.equality)

text \<open>The \<^verbatim>\<open>Idle\<close> event on a stored, playing session with one song or none.\<close>

lemma idle_last_song:
  assumes "serverQueue w g = Some (a, qc)" "ready g qc" "length (songs qc) \<le> 1"
  shows "step (Transport (IdleEvent a)) w =
     (Returned,
      w\<lparr>queue := (queue w)(g := None),
        heap := (heap w)(a \<mapsto> qc\<lparr>songs := [], player := becomeIdle (player qc),
                     connection := map_option destroy (connection qc)\<rparr>)\<rparr>)"
proof -
  have "shift (songs qc) = []" using assms(3) by (cases "songs qc") (auto simp: shift_def)
  then show ?thesis
    using assms(1,2) serverQueueD[OF assms(1)]
    by (auto simp: ready_def turnIdle_def onIdle_def Let_def
        intro!: world.equality queueConstruct.equality)
qed

lemma error_songs_remain:
  assumes "serverQueue w g = Some (a, qc)" "listeners (player qc) = Some g"
    "status (player qc) \<noteq> Idle" "songs qc = x # y # ys"
  shows "step (Transport (ErrorEvent a)) w =
     (Returned,
      w\<lparr>heap := (heap w)(a \<mapsto> qc\<lparr>songs := y # ys, player := play (player qc)\<rparr>),
        outbox := outbox w @ [Send (textChannel qc) (NowPlaying (title y))]\<rparr>)"
  using assms serverQueueD[OF assms(1)]
  by (auto simp: onError_def Let_def shift_def first_def playSong_def
      serverQueue_def send_def play_def
      intro!: world.equality queueConstruct.equality audioPlayer.equality)

lemma error_last_song:
  assumes "serverQueue w g = Some (a, qc)" "listeners (player qc) = Some g"
    "status (player qc) \<noteq> Idle" "length (songs qc) \<le> 1"
  shows "step (Transport (ErrorEvent a)) w =
     (Returned,
      w\<lparr>queue := (queue w)(g := None),
        heap := (heap w)(a \<mapsto> qc\<lparr>songs := [], player := becomeIdle (player qc),
                     connection := map_option destroy (connection qc)\<rparr>)\<rparr>)"
proof -
  have "shift (songs qc) = []" using assms(4) by (cases "songs qc") (auto simp: shift_def)
  then show ?thesis
    using assms(1,2,3) serverQueueD[OF assms(1)]
    by (auto simp: onError_def turnIdle_def onIdle_def Let_def first_def playSong_def
        becomeIdle_def shift_def
        intro!: world.equality queueConstruct.equality audioPlayer.equality)
qed

lemma run_exPlay_AB:
  "run [exPlay songA, exPlay songB] initial =
     \<lparr>queue = [1 \<mapsto> 0], heap = [0 \<mapsto> exSession [songA, songB]], nextRef = 1,
      outbox = [Send 7 (NowPlaying ''A''), Send 7 (AddedToQueue ''B'')]\<rparr>"
  by (simp add: command_defs example_defs)

lemma serverQueue_exPlay_AB:
  "serverQueue (run [exPlay songA, exPlay songB] initial) 1 = Some (0, exSession [songA, songB])"
  unfolding run_exPlay_AB by (simp add: serverQueue_def)


subsection \<open>The claims\<close>

text \<open>
  Claim C1. In every state the process reaches, the failure of the stream of a session
  in the map (its player is not idle) has this effect. With two songs or more: the first
  song is dropped and the second is started, on the same player and connection. With one
  song or none: the queue of songs is empty afterwards, the connection, undestroyed until
  then, is destroyed, the player is idle and the entry is removed from the map (the
  error listener starts nothing, so the player becomes idle and its \<^verbatim>\<open>Idle\<close> listener
  releases). For a playing session the state after the failure is the state after the
  end of the song.
\<close>

theorem error_event_advances:
  assumes "w = run ins initial" and "serverQueue w g = Some (a, qc)"
    and "status (player qc) \<noteq> Idle"
  shows "(songs qc = s1 # s2 # rest \<longrightarrow>
            step (Transport (ErrorEvent a)) w =
              (Returned,
               w\<lparr>heap := (heap w)(a \<mapsto> qc\<lparr>songs := s2 # rest, player := play (player qc)\<rparr>),
                 outbox := outbox w @ [Send (textChannel qc) (NowPlaying (title s2))]\<rparr>)) \<and>
         (length (songs qc) \<le> 1 \<longrightarrow>
            (\<exists>c. connection qc = Some c \<and> destroyCalls c = 0 \<and>
               step (Transport (ErrorEvent a)) w =
                 (Returned,
                  w\<lparr>queue := (queue w)(g := None),
                    heap := (heap w)(a \<mapsto> qc\<lparr>songs := [], player := becomeIdle (player qc),
                                 connection := Some (c\<lparr>destroyCalls := 1\<rparr>)\<rparr>)\<rparr>))) \<and>
         (status (player qc) = Playing \<longrightarrow>
            step (Transport (ErrorEvent a)) w = step (Transport (IdleEvent a)) w)"
proof (intro conjI impI)
  note s = assms(2)
  from reachable_session[of ins g a qc] s assms(1) obtain c where
    l: "listeners (player qc) = Some g" and
    c: "connection qc = Some c" "destroyCalls c = 0" "subscribed c"
    by auto
  {
    assume "songs qc = s1 # s2 # rest"
    from error_songs_remain[OF s l assms(3) this]
    show "step (Transport (ErrorEvent a)) w =
              (Returned,
               w\<lparr>heap := (heap w)(a \<mapsto> qc\<lparr>songs := s2 # rest, player := play (player qc)\<rparr>),
                 outbox := outbox w @ [Send (textChannel qc) (NowPlaying (title s2))]\<rparr>)" .
  }
  {
    assume "length (songs qc) \<le> 1"
    from error_last_song[OF s l assms(3) this] c
    show "\<exists>c. connection qc = Some c \<and> destroyCalls c = 0 \<and>
               step (Transport (ErrorEvent a)) w =
                 (Returned,
                  w\<lparr>queue := (queue w)(g := None),
                    heap := (heap w)(a \<mapsto> qc\<lparr>songs := [], player := becomeIdle (player qc),
                                 connection := Some (c\<lparr>destroyCalls := 1\<rparr>)\<rparr>)\<rparr>)"
      by (simp add: destroy_def)
  }
  {
    assume p: "status (player qc) = Playing"
    have r: "ready g qc" using l p c by (simp add: ready_def hasSubscriber_def)
    show "step (Transport (ErrorEvent a)) w = step (Transport (IdleEvent a)) w"
    proof (cases "songs qc")
      case Nil
      then have "length (songs qc) \<le> 1" by simp
      then show ?thesis
        using error_last_song[OF s l assms(3)] idle_last_song[OF s r] by simp
    next
      case (Cons x xs)
      show ?thesis
      proof (cases xs)
        case Nil
        then have "length (songs qc) \<le> 1" using Cons by simp
        then show ?thesis
          using error_last_song[OF s l assms(3)] idle_last_song[OF s r] by simp
      next
        case (Cons y ys)
        then have "songs qc = x # y # ys" using \<open>songs qc = x # xs\<close> by simp
        then show ?thesis
          using error_songs_remain[OF s l assms(3)] idle_songs_remain[OF s r] by simp
      qed
    qed
  }
qed

theorem error_event_advances_witness:
  "serverQueue (run [exPlay songA, exPlay songB] initial) 1 = Some (0, exSession [songA, songB]) \<and>
   status (player (exSession [songA, songB])) \<noteq> Idle \<and>
   step (Transport (ErrorEvent 0)) (run [exPlay songA, exPlay songB] initial) =
     (Returned,
      \<lparr>queue = [1 \<mapsto> 0],
       heap = [0 \<mapsto> (exSession [songB])\<lparr>player :=
                 \<lparr>status = Playing, resource = 2, stopRequested = False, listeners = Some 1\<rparr>\<rparr>],
       nextRef = 1,
       outbox = [Send 7 (NowPlaying ''A''), Send 7 (AddedToQueue ''B''),
                 Send 7 (NowPlaying ''B'')]\<rparr>) \<and>
   serverQueue (run [exPlay songA] initial) 1 = Some (0, exSession [songA]) \<and>
   queue (snd (step (Transport (ErrorEvent 0)) (run [exPlay songA] initial))) 1 = None \<and>
   heap (snd (step (Transport (ErrorEvent 0)) (run [exPlay songA] initial))) 0 =
     Some \<lparr>voiceChannel = 3, textChannel = 7,
           connection = Some \<lparr>destroyCalls = 1, subscribed = True\<rparr>,
           player = \<lparr>status = Idle, resource = 1, stopRequested = False, listeners = Some 1\<rparr>,
           songs = []\<rparr> \<and>
   step (Transport (ErrorEvent 0)) (run [exPlay songA] initial) =
     step (Transport (IdleEvent 0)) (run [exPlay songA] initial)"
proof -
  have n2: "status (player (exSession [songA, songB])) \<noteq> Idle"
    and n1: "status (player (exSession [songA])) \<noteq> Idle"
    and p1: "status (player (exSession [songA])) = Playing"
    by (simp_all add: exSession_def)
  note t2 = error_event_advances[OF refl serverQueue_exPlay_AB n2, of songA songB "[]"]
  note t1 = error_event_advances[OF refl serverQueue_exPlay_A n1, of songA songB "[]"]
  have so2: "songs (exSession [songA, songB]) = songA # songB # []" by (simp add: exSession_def)
  have le1: "length (songs (exSession [songA])) \<le> 1" by (simp add: exSession_def)
  note e2 = t2[THEN conjunct1, rule_format, OF so2]
  from t1[THEN conjunct2, THEN conjunct1, rule_format, OF le1] obtain c where
    c: "connection (exSession [songA]) = Some c"
    and e1: "step (Transport (ErrorEvent 0)) (run [exPlay songA] initial) =
       (Returned,
        (run [exPlay songA] initial)\<lparr>queue := (queue (run [exPlay songA] initial))(1 := None),
          heap := (heap (run [exPlay songA] initial))(0 \<mapsto> (exSession [songA])\<lparr>songs := [],
             player := becomeIdle (player (exSession [songA])),
             connection := Some (c\<lparr>destroyCalls := 1\<rparr>)\<rparr>)\<rparr>)"
    by blast
  note e3 = t1[THEN conjunct2, THEN conjunct2, rule_format, OF p1]
  have r2: "step (Transport (ErrorEvent 0)) (run [exPlay songA, exPlay songB] initial) =
     (Returned,
      \<lparr>queue = [1 \<mapsto> 0],
       heap = [0 \<mapsto> (exSession [songB])\<lparr>player :=
                 \<lparr>status = Playing, resource = 2, stopRequested = False, listeners = Some 1\<rparr>\<rparr>],
       nextRef = 1,
       outbox = [Send 7 (NowPlaying ''A''), Send 7 (AddedToQueue ''B''),
                 Send 7 (NowPlaying ''B'')]\<rparr>)"
    apply (subst e2)
    unfolding run_exPlay_AB
    apply (simp add: exSession_def play_def songB_def numeral_2_eq_2)
    done
  have r1a: "queue (snd (step (Transport (ErrorEvent 0)) (run [exPlay songA] initial))) 1 = None"
    by (subst e1) simp
  have r1b: "heap (snd (step (Transport (ErrorEvent 0)) (run [exPlay songA] initial))) 0 =
     Some \<lparr>voiceChannel = 3, textChannel = 7,
           connection = Some \<lparr>destroyCalls = 1, subscribed = True\<rparr>,
           player = \<lparr>status = Idle, resource = 1, stopRequested = False, listeners = Some 1\<rparr>,
           songs = []\<rparr>"
    apply (subst e1)
    using c apply (simp add: exSession_def becomeIdle_def)
    apply (auto)
    done
  show ?thesis
    using serverQueue_exPlay_AB n2 r2 serverQueue_exPlay_A r1a r1b e3 by blast
qed

text \<open>
  Claim C2. In every state the process reaches (after any sequence of messages, play
  commands going on after their lookup, and reports of the transport), the connection
  handle of a guild is present if and only if its player handle is present.
\<close>

theorem handles_present_together:
  "(connectionHandle (run ins initial) g \<noteq> None) = (playerHandle (run ins initial) g \<noteq> None)"
proof (cases "serverQueue (run ins initial) g")
  case None
  then show ?thesis by (simp add: connectionHandle_def playerHandle_def)
next
  case (Some p)
  obtain a qc where p: "p = (a, qc)" by (cases p)
  from serverQueueD[OF Some[unfolded p]] store_okD[OF store_ok_reachable, of ins g a]
  have "connection qc \<noteq> None" by (auto simp: live_def)
  then show ?thesis using Some p by (simp add: connectionHandle_def playerHandle_def)
qed

theorem handles_present_together_witness:
  "connectionHandle (run [exPlay songA] initial) 1 \<noteq> None \<and>
   playerHandle (run [exPlay songA] initial) 1 \<noteq> None \<and>
   connectionHandle (run [] initial) 1 = None \<and>
   playerHandle (run [] initial) 1 = None"
  using handles_present_together[of "[exPlay songA]" 1] handles_present_together[of "[]" 1]
  unfolding playerHandle_def connectionHandle_def serverQueue_exPlay_A
  by (simp add: serverQueue_def initial_def exSession_def)

text \<open>
  Claim C3. In every state the process reaches, a \<^verbatim>\<open>stop\<close> command for a guild without
  a session only replies that nothing is playing. For a guild with a session it empties
  the queue of songs, calls \<^verbatim>\<open>stop()\<close> on the player, destroys the connection (which
  had not been destroyed before), removes the session from the map and sends the
  confirmation. The player is left without a subscriber, so nothing is played into the
  channel any more and the end of its resource is never reported: no listener runs
  because of the command.
\<close>

theorem stop_command:
  assumes "\<not> fromBot m" and "w = run ins initial"
  shows "(serverQueue w (guildId m) = None \<longrightarrow>
            messageCreate m Stop w = (Returned, w\<lparr>outbox := outbox w @ [Reply NothingIsPlaying]\<rparr>)) \<and>
         (serverQueue w (guildId m) = Some (a, qc) \<longrightarrow>
            (\<exists>c. connection qc = Some c \<and> destroyCalls c = 0 \<and>
               messageCreate m Stop w =
                 (Returned,
                  w\<lparr>queue := (queue w)(guildId m := None),
                    heap := (heap w)(a \<mapsto> qc\<lparr>songs := [], player := stop (player qc),
                               connection := Some (c\<lparr>destroyCalls := 1\<rparr>)\<rparr>),
                    outbox := outbox w @ [Send (channelId m) StoppedAndCleared]\<rparr>) \<and>
               \<not> hasSubscriber (qc\<lparr>songs := [], player := stop (player qc),
                               connection := Some (c\<lparr>destroyCalls := 1\<rparr>)\<rparr>) \<and>
               step (Transport (IdleEvent a)) (snd (messageCreate m Stop w)) =
                 (Returned, snd (messageCreate m Stop w))))"
proof (intro conjI impI)
  assume "serverQueue w (guildId m) = None"
  then show "messageCreate m Stop w = (Returned, w\<lparr>outbox := outbox w @ [Reply NothingIsPlaying]\<rparr>)"
    using assms(1) by (simp add: messageCreate_def stopCommand_def reply_def)
next
  assume s: "serverQueue w (guildId m) = Some (a, qc)"
  then obtain c where c: "connection qc = Some c" "destroyCalls c = 0"
    using reachable_session[of ins "guildId m" a qc] assms(2) by auto
  have d: "destroy c = c\<lparr>destroyCalls := 1\<rparr>" using c(2) by (simp add: destroy_def)
  let ?qc = "qc\<lparr>songs := [], player := stop (player qc),
                connection := Some (c\<lparr>destroyCalls := 1\<rparr>)\<rparr>"
  have e: "messageCreate m Stop w =
      (Returned,
       w\<lparr>queue := (queue w)(guildId m := None),
         heap := (heap w)(a \<mapsto> ?qc),
         outbox := outbox w @ [Send (channelId m) StoppedAndCleared]\<rparr>)"
    using assms(1) stopCommand_session[OF s c(1)] d by (simp add: messageCreate_def)
  have n: "\<not> hasSubscriber ?qc" by (simp add: hasSubscriber_def)
  have i: "step (Transport (IdleEvent a)) (snd (messageCreate m Stop w)) =
        (Returned, snd (messageCreate m Stop w))"
    unfolding e using n by simp
  show "\<exists>c. connection qc = Some c \<and> destroyCalls c = 0 \<and>
               messageCreate m Stop w =
                 (Returned,
                  w\<lparr>queue := (queue w)(guildId m := None),
                    heap := (heap w)(a \<mapsto> qc\<lparr>songs := [], player := stop (player qc),
                               connection := Some (c\<lparr>destroyCalls := 1\<rparr>)\<rparr>),
                    outbox := outbox w @ [Send (channelId m) StoppedAndCleared]\<rparr>) \<and>
               \<not> hasSubscriber (qc\<lparr>songs := [], player := stop (player qc),
                               connection := Some (c\<lparr>destroyCalls := 1\<rparr>)\<rparr>) \<and>
               step (Transport (IdleEvent a)) (snd (messageCreate m Stop w)) =
                 (Returned, snd (messageCreate m Stop w))"
    using c e n i by blast
qed

theorem stop_command_witness:
  "\<not> fromBot exMessage \<and>
   serverQueue (run [] initial) (guildId exMessage) = None \<and>
   messageCreate exMessage Stop (run [] initial) =
     (Returned, initial\<lparr>outbox := [Reply NothingIsPlaying]\<rparr>) \<and>
   serverQueue (run [exPlay songA] initial) (guildId exMessage) = Some (0, exSession [songA]) \<and>
   fst (messageCreate exMessage Stop (run [exPlay songA] initial)) = Returned \<and>
   queue (snd (messageCreate exMessage Stop (run [exPlay songA] initial))) 1 = None \<and>
   heap (snd (messageCreate exMessage Stop (run [exPlay songA] initial))) 0 =
     Some \<lparr>voiceChannel = 3, textChannel = 7,
           connection = Some \<lparr>destroyCalls = 1, subscribed = True\<rparr>,
           player = \<lparr>status = Playing, resource = 1, stopRequested = True, listeners = Some 1\<rparr>,
           songs = []\<rparr> \<and>
   outbox (snd (messageCreate exMessage Stop (run [exPlay songA] initial))) =
     [Send 7 (NowPlaying ''A''), Send 7 StoppedAndCleared] \<and>
   step (Transport (IdleEvent 0)) (snd (messageCreate exMessage Stop (run [exPlay songA] initial))) =
     (Returned, snd (messageCreate exMessage Stop (run [exPlay songA] initial)))"
proof -
  have g: "guildId exMessage = 1" and b: "\<not> fromBot exMessage" by (simp_all add: exMessage_def)
  have s0: "serverQueue (run [] initial) (guildId exMessage) = None"
    by (simp add: serverQueue_def initial_def)
  have s1: "serverQueue (run [exPlay songA] initial) (guildId exMessage) = Some (0, exSession [songA])"
    unfolding g by (rule serverQueue_exPlay_A)
  from stop_command[OF b refl, of "[]" 0 "exSession []"] s0
  have r0: "messageCreate exMessage Stop (run [] initial) =
     (Returned, initial\<lparr>outbox := [Reply NothingIsPlaying]\<rparr>)"
    by (simp add: initial_def)
  from stop_command[OF b refl, of "[exPlay songA]" 0 "exSession [songA]"] s1
  obtain c where c: "connection (exSession [songA]) = Some c"
    and e: "messageCreate exMessage Stop (run [exPlay songA] initial) =
       (Returned,
        (run [exPlay songA] initial)\<lparr>queue := (queue (run [exPlay songA] initial))(guildId exMessage := None),
          heap := (heap (run [exPlay songA] initial))(0 \<mapsto> (exSession [songA])\<lparr>songs := [],
                     player := stop (player (exSession [songA])),
                     connection := Some (c\<lparr>destroyCalls := 1\<rparr>)\<rparr>),
          outbox := outbox (run [exPlay songA] initial) @ [Send (channelId exMessage) StoppedAndCleared]\<rparr>)"
    and i: "step (Transport (IdleEvent 0)) (snd (messageCreate exMessage Stop (run [exPlay songA] initial))) =
     (Returned, snd (messageCreate exMessage Stop (run [exPlay songA] initial)))"
    by blast
  have r1: "fst (messageCreate exMessage Stop (run [exPlay songA] initial)) = Returned \<and>
   queue (snd (messageCreate exMessage Stop (run [exPlay songA] initial))) 1 = None \<and>
   heap (snd (messageCreate exMessage Stop (run [exPlay songA] initial))) 0 =
     Some \<lparr>voiceChannel = 3, textChannel = 7,
           connection = Some \<lparr>destroyCalls = 1, subscribed = True\<rparr>,
           player = \<lparr>status = Playing, resource = 1, stopRequested = True, listeners = Some 1\<rparr>,
           songs = []\<rparr> \<and>
   outbox (snd (messageCreate exMessage Stop (run [exPlay songA] initial))) =
     [Send 7 (NowPlaying ''A''), Send 7 StoppedAndCleared]"
    apply (simp only: e)
    unfolding run_exPlay_A
    using c apply (auto simp: exSession_def exMessage_def stop_def)
    done
  show ?thesis using b s0 r0 s1 r1 i by blast
qed

text \<open>
  Claim C4. \<^verbatim>\<open>stop\<close> twice in a row, in every state the process reaches. Without a
  session both commands reply that nothing is playing. With a session the first command
  returns, the second returns with the reply that nothing is playing and changes nothing
  else, and after either of them the transport has no \<^verbatim>\<open>Idle\<close> to report for the stopped
  player; \<^verbatim>\<open>destroy\<close> has been called on its connection exactly once.
\<close>

theorem stop_twice:
  assumes "\<not> fromBot m" and "w = run ins initial"
  shows "(serverQueue w (guildId m) = None \<longrightarrow>
            messageCreate m Stop w = (Returned, w\<lparr>outbox := outbox w @ [Reply NothingIsPlaying]\<rparr>) \<and>
            messageCreate m Stop (snd (messageCreate m Stop w)) =
              (Returned, w\<lparr>outbox := outbox w @ [Reply NothingIsPlaying, Reply NothingIsPlaying]\<rparr>)) \<and>
         (serverQueue w (guildId m) = Some (a, qc) \<longrightarrow>
            (\<exists>c w1 w2.
               connection qc = Some c \<and> destroyCalls c = 0 \<and>
               messageCreate m Stop w = (Returned, w1) \<and>
               messageCreate m Stop w1 = (Returned, w2) \<and>
               w2 = w1\<lparr>outbox := outbox w1 @ [Reply NothingIsPlaying]\<rparr> \<and>
               step (Transport (IdleEvent a)) w1 = (Returned, w1) \<and>
               step (Transport (IdleEvent a)) w2 = (Returned, w2) \<and>
               map_option connection (heap w1 a) = Some (Some (c\<lparr>destroyCalls := 1\<rparr>)) \<and>
               map_option connection (heap w2 a) = Some (Some (c\<lparr>destroyCalls := 1\<rparr>))))"
proof (intro conjI impI)
  assume n: "serverQueue w (guildId m) = None"
  show 1: "messageCreate m Stop w = (Returned, w\<lparr>outbox := outbox w @ [Reply NothingIsPlaying]\<rparr>)"
    using n assms(1) by (simp add: messageCreate_def stopCommand_def reply_def)
  have "serverQueue (w\<lparr>outbox := outbox w @ [Reply NothingIsPlaying]\<rparr>) (guildId m) =
      serverQueue w (guildId m)"
    by (simp add: serverQueue_def split: option.splits)
  then have "serverQueue (w\<lparr>outbox := outbox w @ [Reply NothingIsPlaying]\<rparr>) (guildId m) = None"
    using n by simp
  then show "messageCreate m Stop (snd (messageCreate m Stop w)) =
      (Returned, w\<lparr>outbox := outbox w @ [Reply NothingIsPlaying, Reply NothingIsPlaying]\<rparr>)"
    unfolding 1 using assms(1) by (simp add: messageCreate_def stopCommand_def reply_def)
next
  assume s: "serverQueue w (guildId m) = Some (a, qc)"
  from reachable_session[of ins "guildId m" a qc] assms(2) s obtain c where
    c: "connection qc = Some c" "destroyCalls c = 0"
    by auto
  have d: "destroy c = c\<lparr>destroyCalls := 1\<rparr>" using c(2) by (simp add: destroy_def)
  let ?qc = "qc\<lparr>songs := [], player := stop (player qc),
                connection := Some (c\<lparr>destroyCalls := 1\<rparr>)\<rparr>"
  let ?w1 = "w\<lparr>queue := (queue w)(guildId m := None), heap := (heap w)(a \<mapsto> ?qc),
               outbox := outbox w @ [Send (channelId m) StoppedAndCleared]\<rparr>"
  let ?w2 = "?w1\<lparr>outbox := outbox ?w1 @ [Reply NothingIsPlaying]\<rparr>"
  have 1: "messageCreate m Stop w = (Returned, ?w1)"
    using assms(1) stopCommand_session[OF s c(1)] d by (simp add: messageCreate_def)
  have 2: "messageCreate m Stop ?w1 = (Returned, ?w2)"
    using assms(1) by (simp add: messageCreate_def stopCommand_def serverQueue_def reply_def)
  have n: "\<not> hasSubscriber ?qc" by (simp add: hasSubscriber_def)
  have 3: "step (Transport (IdleEvent a)) ?w1 = (Returned, ?w1)" using n by simp
  have 4: "step (Transport (IdleEvent a)) ?w2 = (Returned, ?w2)" using n by simp
  have 5: "map_option connection (heap ?w1 a) = Some (Some (c\<lparr>destroyCalls := 1\<rparr>))" by simp
  have 6: "map_option connection (heap ?w2 a) = Some (Some (c\<lparr>destroyCalls := 1\<rparr>))" by simp
  show "\<exists>c w1 w2.
               connection qc = Some c \<and> destroyCalls c = 0 \<and>
               messageCreate m Stop w = (Returned, w1) \<and>
               messageCreate m Stop w1 = (Returned, w2) \<and>
               w2 = w1\<lparr>outbox := outbox w1 @ [Reply NothingIsPlaying]\<rparr> \<and>
               step (Transport (IdleEvent a)) w1 = (Returned, w1) \<and>
               step (Transport (IdleEvent a)) w2 = (Returned, w2) \<and>
               map_option connection (heap w1 a) = Some (Some (c\<lparr>destroyCalls := 1\<rparr>)) \<and>
               map_option connection (heap w2 a) = Some (Some (c\<lparr>destroyCalls := 1\<rparr>))"
    using c 1 2 3 4 5 6 by blast
qed

theorem stop_twice_witness:
  "\<not> fromBot exMessage \<and>
   serverQueue (run [exPlay songA] initial) (guildId exMessage) = Some (0, exSession [songA]) \<and>
   fst (step (Message exMessage Stop) (run [exPlay songA, Message exMessage Stop] initial)) =
     Returned \<and>
   outbox (run [exPlay songA, Message exMessage Stop, Message exMessage Stop] initial) =
     [Send 7 (NowPlaying ''A''), Send 7 StoppedAndCleared, Reply NothingIsPlaying] \<and>
   map_option connection
     (heap (run [exPlay songA, Message exMessage Stop, Transport (IdleEvent 0),
                 Message exMessage Stop, Transport (IdleEvent 0)] initial) 0) =
     Some (Some \<lparr>destroyCalls = 1, subscribed = True\<rparr>) \<and>
   serverQueue (run [] initial) (guildId exMessage) = None \<and>
   outbox (run [Message exMessage Stop, Message exMessage Stop] initial) =
     [Reply NothingIsPlaying, Reply NothingIsPlaying]"
proof -
  have g: "guildId exMessage = 1" and b: "\<not> fromBot exMessage" by (simp_all add: exMessage_def)
  have s0: "serverQueue (run [] initial) (guildId exMessage) = None"
    by (simp add: serverQueue_def initial_def)
  have s1: "serverQueue (run [exPlay songA] initial) (guildId exMessage) = Some (0, exSession [songA])"
    unfolding g by (rule serverQueue_exPlay_A)
  define W where "W = run [exPlay songA] initial"
  note t = stop_twice[OF b refl, of "[exPlay songA]" 0 "exSession [songA]"]
  from t[THEN conjunct2, rule_format, OF s1] obtain c w1 w2 where
    c: "connection (exSession [songA]) = Some c"
    and 1: "messageCreate exMessage Stop W = (Returned, w1)"
    and 2: "messageCreate exMessage Stop w1 = (Returned, w2)"
    and 3: "w2 = w1\<lparr>outbox := outbox w1 @ [Reply NothingIsPlaying]\<rparr>"
    and 4: "step (Transport (IdleEvent 0)) w1 = (Returned, w1)"
    and 5: "step (Transport (IdleEvent 0)) w2 = (Returned, w2)"
    and 6: "map_option connection (heap w2 0) = Some (Some (c\<lparr>destroyCalls := 1\<rparr>))"
    unfolding W_def by blast
  have c': "c\<lparr>destroyCalls := 1\<rparr> = \<lparr>destroyCalls = 1, subscribed = True\<rparr>"
    using c by (auto simp: exSession_def)
  have o1: "outbox w1 = [Send 7 (NowPlaying ''A''), Send 7 StoppedAndCleared]"
    using 1 unfolding W_def run_exPlay_A
    by (auto simp: command_defs exSession_def exMessage_def)
  have ra: "run [exPlay songA, Message exMessage Stop] initial = w1"
    using 1 by (simp add: W_def)
  have rb: "run [exPlay songA, Message exMessage Stop, Message exMessage Stop] initial = w2"
    using 1 2 by (simp add: W_def)
  have rc: "run [exPlay songA, Message exMessage Stop, Transport (IdleEvent 0),
                 Message exMessage Stop, Transport (IdleEvent 0)] initial = w2"
  proof -
    have "run [exPlay songA, Message exMessage Stop, Transport (IdleEvent 0),
                 Message exMessage Stop, Transport (IdleEvent 0)] initial =
          snd (step (Transport (IdleEvent 0)) (snd (step (Message exMessage Stop)
            (snd (step (Transport (IdleEvent 0)) (snd (step (Message exMessage Stop) W)))))))"
      by (simp add: W_def)
    also have "\<dots> = w2" using 1 2 4 5 by simp
    finally show ?thesis .
  qed
  have a: "fst (step (Message exMessage Stop) (run [exPlay songA, Message exMessage Stop] initial)) =
     Returned"
    unfolding ra using 2 by simp
  have b2: "outbox (run [exPlay songA, Message exMessage Stop, Message exMessage Stop] initial) =
     [Send 7 (NowPlaying ''A''), Send 7 StoppedAndCleared, Reply NothingIsPlaying]"
    unfolding rb using 3 o1 by simp
  have d: "map_option connection
     (heap (run [exPlay songA, Message exMessage Stop, Transport (IdleEvent 0),
                 Message exMessage Stop, Transport (IdleEvent 0)] initial) 0) =
     Some (Some \<lparr>destroyCalls = 1, subscribed = True\<rparr>)"
    unfolding rc using 6 c' by simp
  note u = stop_twice[OF b refl, of "[]" 0 "exSession []", THEN conjunct1, rule_format, OF s0]
  have "run [Message exMessage Stop, Message exMessage Stop] initial =
      snd (messageCreate exMessage Stop (snd (messageCreate exMessage Stop (run [] initial))))"
    by simp
  also have "\<dots> = (run [] initial)\<lparr>outbox := outbox (run [] initial) @
      [Reply NothingIsPlaying, Reply NothingIsPlaying]\<rparr>"
    by (subst u[THEN conjunct2]) simp
  finally have e: "outbox (run [Message exMessage Stop, Message exMessage Stop] initial) =
     [Reply NothingIsPlaying, Reply NothingIsPlaying]"
    by (simp add: initial_def)
  show ?thesis using b s1 a b2 d s0 e by blast
qed

text \<open>
  Claim C5, as amended. Play commands for one guild that pass the checks and resolve,
  each handled to its end before the next input, starting without a session, leave a
  session whose songs are the requested songs in the order of arrival. The \<^verbatim>\<open>queue\<close>
  command then reports their titles numbered in that order, and after the end of the
  first song it reports the same list without its first song. The example after it is
  the case of the songs A, B, C.
\<close>

theorem play_order_is_arrival_order:
  assumes "serverQueue w g = None" and "\<forall>(m, q, s) \<in> set (r # rs). playable g m q"
    and "\<not> fromBot m'" and "guildId m' = g"
  shows "(let w1 = run (map resolvedPlay (r # rs)) w; ss = map (snd \<circ> snd) (r # rs) in
           sessionSongs w1 g = Some ss \<and>
           messageCreate m' Queue w1 =
             (Returned, w1\<lparr>outbox := outbox w1 @
                [Send (channelId m') (CurrentQueue (zip [1..<Suc (length ss)] (map title ss)))]\<rparr>) \<and>
           (rs \<noteq> [] \<longrightarrow>
              (let w2 = snd (step (Transport (IdleEvent (nextRef w))) w1) in
                 sessionSongs w2 g = Some (tl ss) \<and>
                 messageCreate m' Queue w2 =
                   (Returned, w2\<lparr>outbox := outbox w2 @
                      [Send (channelId m')
                         (CurrentQueue (zip [1..<Suc (length (tl ss))] (map title (tl ss))))]\<rparr>))))"
proof -
  obtain m q s where r: "r = (m, q, s)" by (cases r)
  let ?w0 = "snd (step (resolvedPlay (m, q, s)) w)"
  let ?w1 = "run (map resolvedPlay (r # rs)) w"
  let ?ss = "map (snd \<circ> snd) (r # rs)"
  have p: "playable g m q" and ps: "\<forall>(m, q, s) \<in> set rs. playable g m q"
    using assms(2) r by simp_all
  from first_play[OF assms(1) p, of s] obtain qc0 where
    0: "serverQueue ?w0 g = Some (nextRef w, qc0)" "songs qc0 = [s]" "ready g qc0"
    by blast
  from later_plays[OF 0(1) ps] obtain qc1 where
    1: "serverQueue (run (map resolvedPlay rs) ?w0) g = Some (nextRef w, qc1)"
       "songs qc1 = songs qc0 @ map (snd \<circ> snd) rs" "ready g qc1 = ready g qc0"
    by blast
  have w1: "?w1 = run (map resolvedPlay rs) ?w0" by (simp add: r)
  have sq1: "serverQueue ?w1 g = Some (nextRef w, qc1)" using 1(1) w1 by simp
  have so1: "songs qc1 = ?ss" using 1(2) 0(2) r by simp
  have a: "sessionSongs ?w1 g = Some ?ss" using sq1 so1 by (simp add: sessionSongs_def)
  have b: "messageCreate m' Queue ?w1 =
             (Returned, ?w1\<lparr>outbox := outbox ?w1 @
                [Send (channelId m') (CurrentQueue (zip [1..<Suc (length ?ss)] (map title ?ss)))]\<rparr>)"
    using queue_report[of ?w1 m' "nextRef w" qc1] sq1 so1 assms(3,4) by simp
  have c: "rs \<noteq> [] \<longrightarrow>
              (let w2 = snd (step (Transport (IdleEvent (nextRef w))) ?w1) in
                 sessionSongs w2 g = Some (tl ?ss) \<and>
                 messageCreate m' Queue w2 =
                   (Returned, w2\<lparr>outbox := outbox w2 @
                      [Send (channelId m')
                         (CurrentQueue (zip [1..<Suc (length (tl ?ss))] (map title (tl ?ss))))]\<rparr>))"
  proof
    assume ne: "rs \<noteq> []"
    then obtain r2 rs2 where rs: "rs = r2 # rs2" by (cases rs) auto
    let ?w2 = "snd (step (Transport (IdleEvent (nextRef w))) ?w1)"
    have so: "songs qc1 = s # snd (snd r2) # map (snd \<circ> snd) rs2"
      using so1 r rs by simp
    have rd: "ready g qc1" using 1(3) 0(3) by simp
    define qc2 where "qc2 = qc1\<lparr>songs := snd (snd r2) # map (snd \<circ> snd) rs2,
      player := play (player qc1)\<rparr>"
    have 2: "serverQueue ?w2 g = Some (nextRef w, qc2)"
      "songs qc2 = snd (snd r2) # map (snd \<circ> snd) rs2"
      using idle_songs_remain[OF sq1 rd so] serverQueueD[OF sq1]
      by (simp_all add: qc2_def serverQueue_def)
    have t: "songs qc2 = tl ?ss" using 2(2) rs by simp
    have "sessionSongs ?w2 g = Some (tl ?ss)" using 2(1) t by (simp add: sessionSongs_def)
    moreover have "messageCreate m' Queue ?w2 =
                   (Returned, ?w2\<lparr>outbox := outbox ?w2 @
                      [Send (channelId m')
                         (CurrentQueue (zip [1..<Suc (length (tl ?ss))] (map title (tl ?ss))))]\<rparr>)"
      using queue_report[of ?w2 m' "nextRef w" qc2] 2(1) t rs assms(3,4) by simp
    ultimately show "let w2 = ?w2 in
                 sessionSongs w2 g = Some (tl ?ss) \<and>
                 messageCreate m' Queue w2 =
                   (Returned, w2\<lparr>outbox := outbox w2 @
                      [Send (channelId m')
                         (CurrentQueue (zip [1..<Suc (length (tl ?ss))] (map title (tl ?ss))))]\<rparr>)"
      unfolding Let_def by blast
  qed
  show ?thesis unfolding Let_def using a b c unfolding Let_def by blast
qed

theorem play_order_is_arrival_order_witness:
  "serverQueue initial 1 = None \<and>
   playable 1 exMessage ''q'' \<and>
   \<not> fromBot exMessage \<and> guildId exMessage = 1 \<and>
   sessionSongs (run [exPlay songA, exPlay songB, exPlay songC] initial) 1 =
     Some [songA, songB, songC] \<and>
   messageCreate exMessage Queue (run [exPlay songA, exPlay songB, exPlay songC] initial) =
     (Returned,
      (run [exPlay songA, exPlay songB, exPlay songC] initial)
        \<lparr>outbox := outbox (run [exPlay songA, exPlay songB, exPlay songC] initial) @
           [Send 7 (CurrentQueue [(1, ''A''), (2, ''B''), (3, ''C'')])]\<rparr>) \<and>
   sessionSongs (snd (step (Transport (IdleEvent 0))
       (run [exPlay songA, exPlay songB, exPlay songC] initial))) 1 = Some [songB, songC] \<and>
   messageCreate exMessage Queue (snd (step (Transport (IdleEvent 0))
       (run [exPlay songA, exPlay songB, exPlay songC] initial))) =
     (Returned,
      (snd (step (Transport (IdleEvent 0)) (run [exPlay songA, exPlay songB, exPlay songC] initial)))
        \<lparr>outbox := outbox (snd (step (Transport (IdleEvent 0))
               (run [exPlay songA, exPlay songB, exPlay songC] initial))) @
           [Send 7 (CurrentQueue [(1, ''B''), (2, ''C'')])]\<rparr>)"
proof -
  define W1 where "W1 = run [exPlay songA, exPlay songB, exPlay songC] initial"
  define W2 where "W2 = snd (step (Transport (IdleEvent 0)) W1)"
  have h1: "serverQueue initial 1 = None" by (simp add: serverQueue_def initial_def)
  have h2: "\<forall>(m, q, s) \<in> set [(exMessage, ''q'', songA), (exMessage, ''q'', songB),
      (exMessage, ''q'', songC)]. playable 1 m q"
    by (simp add: playable_def exMessage_def)
  have h3: "\<not> fromBot exMessage" and h4: "guildId exMessage = 1"
    by (simp_all add: exMessage_def)
  have e: "map resolvedPlay [(exMessage, ''q'', songA), (exMessage, ''q'', songB),
      (exMessage, ''q'', songC)] = [exPlay songA, exPlay songB, exPlay songC]"
    by (simp add: resolvedPlay_def exPlay_def)
  have n: "nextRef initial = 0" by (simp add: initial_def)
  have u3: "[1..<Suc 3] = [1, 2, 3]" and u2: "[1..<Suc 2] = [1, 2]" by (simp_all add: upt_rec)
  have t: "sessionSongs W1 1 = Some [songA, songB, songC] \<and>
     messageCreate exMessage Queue W1 =
       (Returned, W1\<lparr>outbox := outbox W1 @
          [Send 7 (CurrentQueue [(1, ''A''), (2, ''B''), (3, ''C'')])]\<rparr>) \<and>
     sessionSongs W2 1 = Some [songB, songC] \<and>
     messageCreate exMessage Queue W2 =
       (Returned, W2\<lparr>outbox := outbox W2 @
          [Send 7 (CurrentQueue [(1, ''B''), (2, ''C'')])]\<rparr>)"
    using play_order_is_arrival_order[OF h1 h2 h3 h4]
    unfolding Let_def e n W1_def[symmetric] W2_def[symmetric]
    by (simp add: u3 u2 songA_def songB_def songC_def exMessage_def)
  have h2': "playable 1 exMessage ''q''" using h2 by simp
  show ?thesis using h1 h2' h3 h4 t unfolding W1_def W2_def by blast
qed

text \<open>
  Claim C5 as stated fails when lookups overlap: two play commands that both arrived
  while the guild had no session (line 77 read \<^verbatim>\<open>undefined\<close> for each) each create a
  session, the second replaces the first in the map, and the \<^verbatim>\<open>queue\<close> command reports
  the second song alone.
\<close>

theorem overlapping_plays_counterexample:
  "sessionSongs
     (run [LatePlay exMessage ''q'' (Found (Some songA)) True None,
           LatePlay exMessage ''q'' (Found (Some songB)) True None] initial) 1 = Some [songB] \<and>
   outbox (snd (messageCreate exMessage Queue
     (run [LatePlay exMessage ''q'' (Found (Some songA)) True None,
           LatePlay exMessage ''q'' (Found (Some songB)) True None] initial))) =
     [Send 7 (NowPlaying ''A''), Send 7 (NowPlaying ''B''), Send 7 (CurrentQueue [(1, ''B'')])]"
  by (simp add: command_defs example_defs sessionSongs_def queueLines_def)



text \<open>
  Claim C7, as amended. A \<^verbatim>\<open>play\<close> command that passes the checks and resolves to a song,
  and that found a session for its guild when it arrived (line 77 read the object at
  \<open>a\<close>), appends the song to the end of the songs of that object and sends "added to
  queue" to the channel of the message, whatever has happened to the store during the
  lookup. The map, the connection, the player and every other object stay as they were:
  no object is created. The same holds for the command handled at once on a guild whose
  entry is \<open>a\<close>.
\<close>

theorem play_appends_to_session_read:
  assumes "\<not> fromBot m" "memberVoice m = Some vc" "canConnect m" "canSpeak m" "search \<noteq> []"
    and "heap w a = Some qc"
  shows "step (LatePlay m search (Found (Some songInfo)) joinOk (Some a)) w =
           (Returned,
            w\<lparr>heap := (heap w)(a \<mapsto>
                 qc\<lparr>songs := songs qc @ [\<lparr>title = title songInfo, url = url songInfo\<rparr>]\<rparr>),
              outbox := outbox w @ [Send (channelId m) (AddedToQueue (title songInfo))]\<rparr>) \<and>
         (queue w (guildId m) = Some a \<longrightarrow>
            messageCreate m (Play search (Found (Some songInfo)) joinOk) w =
              (Returned,
               w\<lparr>heap := (heap w)(a \<mapsto>
                    qc\<lparr>songs := songs qc @ [\<lparr>title = title songInfo, url = url songInfo\<rparr>]\<rparr>),
                 outbox := outbox w @ [Send (channelId m) (AddedToQueue (title songInfo))]\<rparr>))"
  using assms
  by (simp add: messageCreate_def playCommand_def playAfterLookup_def deref_def send_def)

theorem play_appends_to_session_read_witness:
  "\<not> fromBot exMessage \<and> memberVoice exMessage = Some 3 \<and> canConnect exMessage \<and>
   canSpeak exMessage \<and> ''q'' \<noteq> [] \<and>
   heap (run [exPlay songA] initial) 0 = Some (exSession [songA]) \<and>
   queue (run [exPlay songA] initial) (guildId exMessage) = Some 0 \<and>
   messageCreate exMessage (Play ''q'' (Found (Some songB)) True) (run [exPlay songA] initial) =
     (Returned,
      \<lparr>queue = [1 \<mapsto> 0], heap = [0 \<mapsto> exSession [songA, songB]], nextRef = 1,
       outbox = [Send 7 (NowPlaying ''A''), Send 7 (AddedToQueue ''B'')]\<rparr>) \<and>
   queue (run [exPlay songA, Message exMessage Stop] initial) (guildId exMessage) = None \<and>
   heap (run [exPlay songA, Message exMessage Stop] initial) 0 =
     Some ((exSession [])\<lparr>connection := Some \<lparr>destroyCalls = 1, subscribed = True\<rparr>,
        player := \<lparr>status = Playing, resource = 1, stopRequested = True, listeners = Some 1\<rparr>\<rparr>) \<and>
   heap (snd (step (LatePlay exMessage ''q'' (Found (Some songB)) True (Some 0))
      (run [exPlay songA, Message exMessage Stop] initial))) 0 =
     Some ((exSession [songB])\<lparr>connection := Some \<lparr>destroyCalls = 1, subscribed = True\<rparr>,
        player := \<lparr>status = Playing, resource = 1, stopRequested = True, listeners = Some 1\<rparr>\<rparr>) \<and>
   queue (snd (step (LatePlay exMessage ''q'' (Found (Some songB)) True (Some 0))
      (run [exPlay songA, Message exMessage Stop] initial))) (guildId exMessage) = None \<and>
   outbox (snd (step (LatePlay exMessage ''q'' (Found (Some songB)) True (Some 0))
      (run [exPlay songA, Message exMessage Stop] initial))) =
     [Send 7 (NowPlaying ''A''), Send 7 StoppedAndCleared, Send 7 (AddedToQueue ''B'')]"
proof -
  let ?S = "(exSession [])\<lparr>connection := Some \<lparr>destroyCalls = 1, subscribed = True\<rparr>,
        player := \<lparr>status = Playing, resource = 1, stopRequested = True, listeners = Some 1\<rparr>\<rparr>"
  have g: "guildId exMessage = 1" by (simp add: exMessage_def)
  have h: "\<not> fromBot exMessage" "memberVoice exMessage = Some 3" "canConnect exMessage"
    "canSpeak exMessage" "''q'' \<noteq> []"
    by (simp_all add: exMessage_def)
  have rS: "run [exPlay songA, Message exMessage Stop] initial =
     \<lparr>queue = Map.empty(1 := None), heap = [0 \<mapsto> ?S], nextRef = 1,
      outbox = [Send 7 (NowPlaying ''A''), Send 7 StoppedAndCleared]\<rparr>"
    by (simp add: command_defs example_defs)
  have a1: "heap (run [exPlay songA] initial) 0 = Some (exSession [songA])"
    unfolding run_exPlay_A by simp
  have a2: "queue (run [exPlay songA] initial) (guildId exMessage) = Some 0"
    unfolding run_exPlay_A g by simp
  have b1: "heap (run [exPlay songA, Message exMessage Stop] initial) 0 = Some ?S"
    unfolding rS by simp
  have b2: "queue (run [exPlay songA, Message exMessage Stop] initial) (guildId exMessage) = None"
    unfolding rS g by simp
  note ta = play_appends_to_session_read[OF h a1, of songB True, THEN conjunct2, rule_format, OF a2]
  note tb = play_appends_to_session_read[OF h b1, of songB True, THEN conjunct1]
  have ra: "messageCreate exMessage (Play ''q'' (Found (Some songB)) True) (run [exPlay songA] initial) =
     (Returned,
      \<lparr>queue = [1 \<mapsto> 0], heap = [0 \<mapsto> exSession [songA, songB]], nextRef = 1,
       outbox = [Send 7 (NowPlaying ''A''), Send 7 (AddedToQueue ''B'')]\<rparr>)"
    apply (subst ta)
    unfolding run_exPlay_A
    apply (simp add: exSession_def songB_def exMessage_def)
    done
  have rb1: "heap (snd (step (LatePlay exMessage ''q'' (Found (Some songB)) True (Some 0))
      (run [exPlay songA, Message exMessage Stop] initial))) 0 =
     Some ((exSession [songB])\<lparr>connection := Some \<lparr>destroyCalls = 1, subscribed = True\<rparr>,
        player := \<lparr>status = Playing, resource = 1, stopRequested = True, listeners = Some 1\<rparr>\<rparr>)"
    apply (subst tb)
    apply (simp add: exSession_def songB_def)
    done
  have rb2: "queue (snd (step (LatePlay exMessage ''q'' (Found (Some songB)) True (Some 0))
      (run [exPlay songA, Message exMessage Stop] initial))) (guildId exMessage) = None"
    apply (subst tb)
    using b2 apply simp
    done
  have rb3: "outbox (snd (step (LatePlay exMessage ''q'' (Found (Some songB)) True (Some 0))
      (run [exPlay songA, Message exMessage Stop] initial))) =
     [Send 7 (NowPlaying ''A''), Send 7 StoppedAndCleared, Send 7 (AddedToQueue ''B'')]"
    apply (subst tb)
    unfolding rS
    apply (simp add: songB_def exMessage_def)
    done
  show ?thesis using h a1 a2 ra b2 b1 rb1 rb2 rb3 by blast
qed

text \<open>
  Claim C7 as stated fails for a command that arrived before the guild had a session:
  it creates a second object with a player and a connection of its own, although the
  guild has a session when it does so, and sends "now playing".
\<close>

theorem play_after_stale_read_counterexample:
  "serverQueue (run [exPlay songA] initial) 1 = Some (0, exSession [songA]) \<and>
   step (LatePlay exMessage ''q'' (Found (Some songB)) True None) (run [exPlay songA] initial) =
     (Returned,
      \<lparr>queue = [1 \<mapsto> 1], heap = [0 \<mapsto> exSession [songA], 1 \<mapsto> exSession [songB]],
       nextRef = 2,
       outbox = [Send 7 (NowPlaying ''A''), Send 7 (NowPlaying ''B'')]\<rparr>)"
  by (simp add: command_defs example_defs numeral_2_eq_2)




text \<open>
  Claim C9. \<^verbatim>\<open>pause\<close> and \<^verbatim>\<open>resume\<close> for a guild without a session change nothing and
  send nothing. With a session they change at most the status of its player (\<^verbatim>\<open>pause\<close>
  only when it is playing, \<^verbatim>\<open>resume\<close> only when it is paused) and send their
  confirmation; the songs, the connection, the map and every other object stay as they
  were.
\<close>

theorem pause_resume_frame:
  "(serverQueue w (guildId m) = None \<longrightarrow>
      messageCreate m Pause w = (Returned, w) \<and> messageCreate m Resume w = (Returned, w)) \<and>
   (\<not> fromBot m \<and> serverQueue w (guildId m) = Some (a, qc) \<longrightarrow>
      messageCreate m Pause w =
        (Returned,
         w\<lparr>heap := (heap w)(a \<mapsto> qc\<lparr>player := (player qc)
              \<lparr>status := (if status (player qc) = Playing then Paused else status (player qc))\<rparr>\<rparr>),
           outbox := outbox w @ [Send (channelId m) PausedText]\<rparr>) \<and>
      messageCreate m Resume w =
        (Returned,
         w\<lparr>heap := (heap w)(a \<mapsto> qc\<lparr>player := (player qc)
              \<lparr>status := (if status (player qc) = Paused then Playing else status (player qc))\<rparr>\<rparr>),
           outbox := outbox w @ [Send (channelId m) ResumedText]\<rparr>))"
  by (simp add: messageCreate_def pauseCommand_def resumeCommand_def send_def pause_def unpause_def)

theorem pause_resume_frame_witness:
  "serverQueue initial (guildId exMessage) = None \<and>
   messageCreate exMessage Pause initial = (Returned, initial) \<and>
   messageCreate exMessage Resume initial = (Returned, initial) \<and>
   \<not> fromBot exMessage \<and>
   serverQueue (run [exPlay songA] initial) (guildId exMessage) = Some (0, exSession [songA]) \<and>
   messageCreate exMessage Pause (run [exPlay songA] initial) =
     (Returned,
      \<lparr>queue = [1 \<mapsto> 0],
       heap = [0 \<mapsto> (exSession [songA])\<lparr>player :=
          \<lparr>status = Paused, resource = 1, stopRequested = False, listeners = Some 1\<rparr>\<rparr>],
       nextRef = 1,
       outbox = [Send 7 (NowPlaying ''A''), Send 7 PausedText]\<rparr>) \<and>
   messageCreate exMessage Resume (run [exPlay songA] initial) =
     (Returned,
      \<lparr>queue = [1 \<mapsto> 0], heap = [0 \<mapsto> exSession [songA]], nextRef = 1,
       outbox = [Send 7 (NowPlaying ''A''), Send 7 ResumedText]\<rparr>)"
proof -
  have g: "guildId exMessage = 1" and b: "\<not> fromBot exMessage" by (simp_all add: exMessage_def)
  have s0: "serverQueue initial (guildId exMessage) = None"
    by (simp add: serverQueue_def initial_def)
  have s1: "serverQueue (run [exPlay songA] initial) (guildId exMessage) = Some (0, exSession [songA])"
    unfolding g by (rule serverQueue_exPlay_A)
  show ?thesis
    using b s0 s1 pause_resume_frame[of initial exMessage 0 "exSession []"]
      pause_resume_frame[of "run [exPlay songA] initial" exMessage 0 "exSession [songA]"]
    unfolding run_exPlay_A
    by (simp add: exSession_def exMessage_def)
qed

text \<open>
  Claim C10. \<^verbatim>\<open>playSong\<close> with an absent song (\<^verbatim>\<open>undefined\<close>, which is what the error
  listener passes after the last song) returns and leaves the whole state as it was: no
  playback is started, nothing is sent, nothing is thrown.
\<close>

theorem playSong_absent_song: "playSong g None w = (Returned, w)"
  by (simp add: playSong_def)

end
